(* ===== verification/Prelude.thy ===== *)
theory Prelude
  imports Complex_Main "HOL-Library.Sublist" "HOL-Library.Multiset"
begin

text \<open>
  Shared vocabulary of the Strategy-Radar development: the JavaScript number
  and string operations the sources rely on (\<open>Math.round\<close>, \<open>Math.max\<close> and
  \<open>Math.min\<close> on spread arrays, the mean that is \<open>NaN\<close> on an empty array,
  \<open>String.prototype.startsWith\<close>, case-insensitive regular-expression
  alternation), written once as HOL functions, with the generic list lemmas the
  component theories share.  JavaScript numbers are modelled as exact
  mathematical values: scores are \<open>int\<close> (the sources only ever store integers
  0..10 in them), derived statistics are \<open>real\<close>.
\<close>

named_theorems label_simps
  "distinctness facts of the five dimension labels, used to evaluate lookups by label"

named_theorems table_defs
  "definitions of the constant tables of the sources (dimensions, canned profiles)"

type_synonym label = string

section \<open>JavaScript numbers\<close>

text \<open>\<open>Math.round x\<close> rounds half-way cases towards \<open>+\<infinity>\<close>: it is \<open>\<lfloor>x + 1/2\<rfloor>\<close>.\<close>

definition js_round :: "real \<Rightarrow> int" where
  "js_round x = \<lfloor>x + 1 / 2\<rfloor>"

text \<open>
  \<open>Math.max(...xs)\<close> and \<open>Math.min(...xs)\<close>: on an empty array they return
  \<open>-Infinity\<close> and \<open>+Infinity\<close>, modelled as \<open>None\<close>.
\<close>

fun js_max :: "int list \<Rightarrow> int option" where
  "js_max [] = None"
| "js_max (x # xs) = Some (fold max xs x)"

fun js_min :: "int list \<Rightarrow> int option" where
  "js_min [] = None"
| "js_min (x # xs) = Some (fold min xs x)"

text \<open>
  \<open>xs.reduce((a, b) => a + b, 0) / xs.length\<close>: \<open>0 / 0\<close> is \<open>NaN\<close> on an
  empty array, modelled as \<open>None\<close>; every comparison with \<open>NaN\<close> is false.
\<close>

definition js_mean :: "int list \<Rightarrow> real option" where
  "js_mean xs = (if xs = [] then None else Some (real_of_int (sum_list xs) / real (length xs)))"

fun nan_less :: "real option \<Rightarrow> real \<Rightarrow> bool" where
  "nan_less None c = False"
| "nan_less (Some a) c = (a < c)"

text \<open>\<open>max - min >= 5\<close> with the infinities of the empty array: \<open>-\<infinity> - \<infinity>\<close> is \<open>-\<infinity>\<close>.\<close>

fun spread_at_least :: "int option \<Rightarrow> int option \<Rightarrow> int \<Rightarrow> bool" where
  "spread_at_least (Some hi) (Some lo) d = (hi - lo \<ge> d)"
| "spread_at_least _ _ d = False"

section \<open>JavaScript strings\<close>

text \<open>
  Strings are byte lists (UTF-8).  The only string operations the sources use
  are equality, \<open>startsWith\<close> and a case-insensitive regular expression of the
  form \<open>/(a|b|...)/i\<close> with lower-case ASCII alternatives.  Without the
  \<open>u\<close> flag, JavaScript's case folding only identifies ASCII letters with
  ASCII letters, and a non-ASCII code unit never matches an ASCII pattern
  character; so byte-wise matching after ASCII lower-casing decides the same
  test.
\<close>

definition ascii_lower :: "char \<Rightarrow> char" where
  "ascii_lower c = (let n = of_char c :: nat in if 65 \<le> n \<and> n \<le> 90 then char_of (n + 32) else c)"

definition starts_with :: "string \<Rightarrow> string \<Rightarrow> bool" where
  "starts_with s p = prefix p s"

definition regex_test_ci :: "string list \<Rightarrow> string \<Rightarrow> bool" where
  "regex_test_ci alts s = list_ex (\<lambda>p. sublist p (map ascii_lower s)) alts"

section \<open>Reference selection of the lowest elements\<close>

text \<open>
  \<open>select_lowest f n xs\<close> picks, \<open>n\<close> times, the first element of least key
  and removes it: the plain meaning of "the \<open>n\<close> lowest entries, ties in
  original order".  It is the reference against which the stable sort followed by
  \<open>slice(0, n)\<close> of the advice engine is proved equal.
\<close>

fun select_lowest :: "('a \<Rightarrow> int) \<Rightarrow> nat \<Rightarrow> 'a list \<Rightarrow> 'a list" where
  "select_lowest f 0 xs = []"
| "select_lowest f (Suc n) [] = []"
| "select_lowest f (Suc n) (y # ys) =
     (let m = fold min (map f ys) (f y);
          x = (case find (\<lambda>s. f s = m) (y # ys) of Some x \<Rightarrow> x | None \<Rightarrow> y)
      in x # select_lowest f n (remove1 x (y # ys)))"

section \<open>Shared lemmas\<close>

lemma js_max_Max: "js_max xs = (if xs = [] then None else Some (Max (set xs)))"
  by (cases xs) (simp_all add: Max.set_eq_fold [symmetric])

lemma js_min_Min: "js_min xs = (if xs = [] then None else Some (Min (set xs)))"
  by (cases xs) (simp_all add: Min.set_eq_fold [symmetric])

lemma js_round_le_iff: "(k \<le> js_round x) \<longleftrightarrow> real_of_int k \<le> x + 1 / 2"
  by (simp add: js_round_def le_floor_iff)

lemma js_round_of_int [simp]: "js_round (real_of_int k) = k"
  unfolding js_round_def by linarith

lemma spread_at_least_iff:
  "spread_at_least (js_max xs) (js_min xs) d \<longleftrightarrow> xs \<noteq> [] \<and> d \<le> Max (set xs) - Min (set xs)"
  by (simp add: js_max_Max js_min_Min)

lemma nan_less_js_mean:
  "nan_less (js_mean xs) c \<longleftrightarrow> xs \<noteq> [] \<and> real_of_int (sum_list xs) / real (length xs) < c"
  by (simp add: js_mean_def)

lemma regex_test_ci_Cons [simp]:
  "regex_test_ci (p # ps) s \<longleftrightarrow> sublist p (map ascii_lower s) \<or> regex_test_ci ps s"
  "\<not> regex_test_ci [] s"
  by (simp_all add: regex_test_ci_def)

text \<open>
  The first element of a list with a property, located by \<open>find\<close>, and the
  lowest elements of a stable sort: facts the advice engine and the state
  updates share.
\<close>

lemma find_map_eq:
  "find P (map f xs) = map_option f (find (P \<circ> f) xs)"
  by (induction xs) auto

lemma sorted_take_sort_key: "sorted (map f (take n (sort_key f xs)))"
  by (metis sorted_sort_key sorted_wrt_take take_map)

lemma set_take_sort_key_subset: "set (take n (sort_key f xs)) \<subseteq> set xs"
  by (metis set_sort set_take_subset)

lemma sort_key_first_min:
  assumes xs: "xs = as @ x # bs" and lt: "\<forall>a\<in>set as. f x < f a" and le: "\<forall>b\<in>set bs. f x \<le> f b"
  shows "sort_key f xs = x # sort_key f (as @ bs)"
proof (rule properties_for_sort_key)
  show "mset (x # sort_key f (as @ bs)) = mset xs"
    using xs by simp
  show "sorted (map f (x # sort_key f (as @ bs)))"
    using lt le by (auto simp: sorted_sort_key less_imp_le)
  fix k
  have stable: "filter (\<lambda>y. f k = f y) (sort_key f ys) = filter (\<lambda>y. f k = f y) ys" for ys
    using sort_key_stable [of f "f k" ys] by (simp add: eq_commute)
  have "filter (\<lambda>y. f k = f y) as = []" if "f k = f x"
    using lt that by (auto simp: filter_empty_conv)
  then show "filter (\<lambda>y. f k = f y) (x # sort_key f (as @ bs)) = filter (\<lambda>y. f k = f y) xs"
    using xs stable [of "as @ bs"] by (cases "f k = f x") simp_all
qed

lemma find_first_split:
  assumes "find P xs = Some x"
  obtains as bs where "xs = as @ x # bs" "\<forall>a\<in>set as. \<not> P a" "P x"
proof -
  from assms obtain i where i: "i < length xs" "P (xs ! i)" "x = xs ! i" "\<forall>j<i. \<not> P (xs ! j)"
    by (auto simp: find_Some_iff)
  have "xs = take i xs @ x # drop (Suc i) xs"
    using i(1,3) by (simp add: id_take_nth_drop)
  moreover have "\<forall>a\<in>set (take i xs). \<not> P a"
    using i(1,4) by (auto simp: in_set_conv_nth)
  ultimately show ?thesis
    using i(2,3) that by blast
qed

lemma take_sort_key_select_lowest:
  "take n (sort_key f xs) = select_lowest f n xs"
proof (induction f n xs rule: select_lowest.induct)
  case (3 f n y ys)
  define m where "m = fold min (map f ys) (f y)"
  have m_min: "m = Min (f ` set (y # ys))"
    by (simp add: m_def Min.set_eq_fold [symmetric])
  have "m \<in> f ` set (y # ys)"
    unfolding m_min by (rule Min_in) simp_all
  then have "\<exists>s\<in>set (y # ys). f s = m"
    by auto
  then have "find (\<lambda>s. f s = m) (y # ys) \<noteq> None"
    unfolding find_None_iff by blast
  then obtain x where fx: "find (\<lambda>s. f s = m) (y # ys) = Some x"
    by blast
  then obtain as bs where split: "y # ys = as @ x # bs" "\<forall>a\<in>set as. f a \<noteq> m" "f x = m"
    by (rule find_first_split)
  have sets: "set (y # ys) = set as \<union> insert x (set bs)"
    using split(1) by (metis set_append list.set(2))
  have lower: "f x \<le> f s" if "s \<in> set (y # ys)" for s
  proof -
    have "m \<le> f s"
      unfolding m_min using that by (intro Min_le) auto
    then show ?thesis
      using split(3) by simp
  qed
  have lt: "\<forall>a\<in>set as. f x < f a"
  proof
    fix a assume "a \<in> set as"
    then have "a \<in> set (y # ys)" "f a \<noteq> f x"
      using sets split(2,3) by auto
    then show "f x < f a"
      using lower [of a] by (auto simp: less_le)
  qed
  have le: "\<forall>b\<in>set bs. f x \<le> f b"
    using sets lower by blast
  have x_notin: "x \<notin> set as"
    using split(2,3) by blast
  have rem: "remove1 x (y # ys) = as @ bs"
    using split(1) x_notin by (simp add: remove1_append)
  have sel: "select_lowest f (Suc n) (y # ys) = x # select_lowest f n (remove1 x (y # ys))"
    using fx by (simp add: m_def [symmetric])
  have "take n (sort_key f (remove1 x (y # ys))) = select_lowest f n (remove1 x (y # ys))"
    using fx by (intro "3.IH" [OF m_def]) simp
  then show ?case
    using sort_key_first_min [OF split(1) lt le] rem sel by simp
qed simp_all

end
