(* ===== verification/Types.thy ===== *)
theory Types
  imports Prelude
begin

text \<open>
  The data model of \<^verbatim>\<open>src/types.ts\<close> and the constant tables of
  \<^verbatim>\<open>src/constants.ts\<close>: the five dimensions, the score records, the advice
  records, and the well-formedness predicate of a score list (the five labels in
  registry order, values in 0..10, \<open>fullMark = 10\<close>).

  The sources carry fixed Chinese text literals (summaries, advice, warnings,
  error messages).  No decision depends on their characters, so each literal is
  represented by a constructor of \<open>message\<close> that names it; a template literal
  is a constructor carrying the interpolated values.  Dimension labels, which
  the code does compare, are kept as their exact UTF-8 bytes.
\<close>

section \<open>Dimensions (types.ts \<open>Dimension\<close>, constants.ts \<open>DIMENSIONS\<close>)\<close>

datatype dim_key = Business | Tech | User | Zeitgeist | Ai

datatype solution_type = Innovative | Incremental | Defensive | Exploratory

datatype profile_id = ECOMMERCE | SOCIAL_MEDIA | SAAS | DEFAULT

datatype message =
    DimDescription dim_key
  | ProfileSummary profile_id
  | ProfileAdvice profile_id nat
  | ProfileBalanceWarning profile_id
  | SummaryInnovative | SummaryDefensive | SummaryExploratory | SummaryIncremental
  | LowScoreBusiness | LowScoreTech | LowScoreUser | LowScoreZeitgeist | LowScoreAi
  | LowScoreGeneric string
  | BalanceWarning "string option" "string option"
  | LowScoreWarning string
  | ImbalanceWarning
  | ErrInvalidUrl | ErrAdviceFailed | ErrUrlFailed
  | NoRiskDetected | SolutionTypeLabel solution_type

text \<open>The labels, byte for byte (UTF-8 of the literals in constants.ts).\<close>

definition LABEL_business :: label where
  "LABEL_business = [CHR 0xE5, CHR 0x95, CHR 0x86, CHR 0xE6, CHR 0xA5, CHR 0xAD,
     CHR 0xE5, CHR 0x8F, CHR 0xAF, CHR 0xE8, CHR 0xA1, CHR 0x8C, CHR 0xE6, CHR 0x80, CHR 0xA7]"

definition LABEL_tech :: label where
  "LABEL_tech = [CHR 0xE6, CHR 0x8A, CHR 0x80, CHR 0xE8, CHR 0xA1, CHR 0x93,
     CHR 0xE5, CHR 0x8F, CHR 0xAF, CHR 0xE8, CHR 0xA1, CHR 0x8C, CHR 0xE6, CHR 0x80, CHR 0xA7]"

definition LABEL_user :: label where
  "LABEL_user = [CHR 0xE4, CHR 0xBD, CHR 0xBF, CHR 0xE7, CHR 0x94, CHR 0xA8,
     CHR 0xE8, CHR 0x80, CHR 0x85, CHR 0xE5, CHR 0x83, CHR 0xB9, CHR 0xE5, CHR 0x80, CHR 0xBC]"

definition LABEL_zeitgeist :: label where
  "LABEL_zeitgeist = [CHR 0xE6, CHR 0x99, CHR 0x82, CHR 0xE4, CHR 0xBB, CHR 0xA3,
     CHR 0xE7, CHR 0x9B, CHR 0xB8, CHR 0xE9, CHR 0x97, CHR 0x9C, CHR 0xE6, CHR 0x80, CHR 0xA7]"

definition LABEL_ai :: label where
  "LABEL_ai = [CHR ''A'', CHR ''I'', CHR '' '', CHR 0xE6, CHR 0x95, CHR 0xB4,
     CHR 0xE5, CHR 0x90, CHR 0x88, CHR 0xE6, CHR 0xBD, CHR 0x9B, CHR 0xE5, CHR 0x8A, CHR 0x9B]"

record Dimension =
  key :: dim_key
  label :: label
  description :: message

definition DIMENSIONS :: "Dimension list" where
  [table_defs]: "DIMENSIONS =
    [\<lparr>key = Business, label = LABEL_business, description = DimDescription Business\<rparr>,
     \<lparr>key = Tech, label = LABEL_tech, description = DimDescription Tech\<rparr>,
     \<lparr>key = User, label = LABEL_user, description = DimDescription User\<rparr>,
     \<lparr>key = Zeitgeist, label = LABEL_zeitgeist, description = DimDescription Zeitgeist\<rparr>,
     \<lparr>key = Ai, label = LABEL_ai, description = DimDescription Ai\<rparr>]"

section \<open>Scores and advice (types.ts)\<close>

record DimensionScore =
  subject :: label
  val :: int
  fullMark :: int

record Improvement =
  dimension :: label
  suggestion :: message

record Suggestion =
  solutionType :: solution_type
  strategicSummary :: message
  improvementSuggestions :: "Improvement list"
  balanceWarning :: "message option"

record IdealData =
  ideal_subject :: label
  ideal :: int
  feasible :: int
  ideal_fullMark :: int

record AIScore =
  ai_dimension :: label
  ai_val :: int

record AnalysisResult =
  result_scores :: "AIScore list"
  result_suggestions :: Suggestion

definition IDEAL_DATA :: "IdealData list" where
  [table_defs]: "IDEAL_DATA =
    map (\<lambda>d. \<lparr>ideal_subject = label d, ideal = 9, feasible = 6, ideal_fullMark = 10\<rparr>) DIMENSIONS"

section \<open>Well-formed score lists\<close>

text \<open>
  The invariant of the score store (spec section 3): one score per dimension,
  in registry order, each value in 0..10 and \<open>fullMark = 10\<close>.
\<close>

definition score_ok :: "DimensionScore \<Rightarrow> bool" where
  "score_ok s \<longleftrightarrow> 0 \<le> val s \<and> val s \<le> 10 \<and> fullMark s = 10"

definition wf_scores :: "DimensionScore list \<Rightarrow> bool" where
  "wf_scores ss \<longleftrightarrow> map subject ss = map label DIMENSIONS \<and> list_all score_ok ss"

text \<open>The score list with the given values, in registry order.\<close>

definition scores_of :: "int list \<Rightarrow> DimensionScore list" where
  "scores_of vs = map2 (\<lambda>d v. \<lparr>subject = label d, val = v, fullMark = 10\<rparr>) DIMENSIONS vs"

section \<open>Lemmas\<close>

lemma labels_distinct [label_simps, simp]:
  "LABEL_business \<noteq> LABEL_tech" "LABEL_business \<noteq> LABEL_user"
  "LABEL_business \<noteq> LABEL_zeitgeist" "LABEL_business \<noteq> LABEL_ai"
  "LABEL_tech \<noteq> LABEL_business" "LABEL_tech \<noteq> LABEL_user"
  "LABEL_tech \<noteq> LABEL_zeitgeist" "LABEL_tech \<noteq> LABEL_ai"
  "LABEL_user \<noteq> LABEL_business" "LABEL_user \<noteq> LABEL_tech"
  "LABEL_user \<noteq> LABEL_zeitgeist" "LABEL_user \<noteq> LABEL_ai"
  "LABEL_zeitgeist \<noteq> LABEL_business" "LABEL_zeitgeist \<noteq> LABEL_tech"
  "LABEL_zeitgeist \<noteq> LABEL_user" "LABEL_zeitgeist \<noteq> LABEL_ai"
  "LABEL_ai \<noteq> LABEL_business" "LABEL_ai \<noteq> LABEL_tech"
  "LABEL_ai \<noteq> LABEL_user" "LABEL_ai \<noteq> LABEL_zeitgeist"
  by (simp_all add: LABEL_business_def LABEL_tech_def LABEL_user_def LABEL_zeitgeist_def LABEL_ai_def)

lemma map_label_DIMENSIONS [simp]:
  "map label DIMENSIONS = [LABEL_business, LABEL_tech, LABEL_user, LABEL_zeitgeist, LABEL_ai]"
  by (simp add: DIMENSIONS_def)

lemma distinct_labels: "distinct (map label DIMENSIONS)"
  by simp

lemma scores_of_5 [simp]:
  "scores_of [b, t, u, z, a] =
    [\<lparr>subject = LABEL_business, val = b, fullMark = 10\<rparr>,
     \<lparr>subject = LABEL_tech, val = t, fullMark = 10\<rparr>,
     \<lparr>subject = LABEL_user, val = u, fullMark = 10\<rparr>,
     \<lparr>subject = LABEL_zeitgeist, val = z, fullMark = 10\<rparr>,
     \<lparr>subject = LABEL_ai, val = a, fullMark = 10\<rparr>]"
  by (simp add: scores_of_def DIMENSIONS_def)

text \<open>Every well-formed score list is \<open>scores_of\<close> of its five values.\<close>

lemma wf_scores_scores_of:
  assumes "wf_scores ss"
  obtains b t u z a where "ss = scores_of [b, t, u, z, a]"
    and "list_all (\<lambda>v. 0 \<le> v \<and> v \<le> 10) [b, t, u, z, a]"
proof -
  from assms have "length (map subject ss) = 5"
    by (simp add: wf_scores_def)
  then have "length ss = 5" by simp
  then obtain s1 s2 s3 s4 s5 where ss: "ss = [s1, s2, s3, s4, s5]"
    by (auto simp: numeral_eq_Suc length_Suc_conv)
  with assms show ?thesis
    by (intro that [of "val s1" "val s2" "val s3" "val s4" "val s5"])
       (auto simp: wf_scores_def score_ok_def)
qed

lemma wf_scores_of_iff:
  "wf_scores (scores_of [b, t, u, z, a]) \<longleftrightarrow> list_all (\<lambda>v. 0 \<le> v \<and> v \<le> 10) [b, t, u, z, a]"
  by (auto simp: wf_scores_def score_ok_def)

lemma length_wf_scores: "wf_scores ss \<Longrightarrow> length ss = 5"
  by (erule wf_scores_scores_of) simp

end
