(* ===== verification/Advice.thy ===== *)
theory Advice
  imports Types
begin

text \<open>
  The advice engine, \<^verbatim>\<open>getDesignAdvice\<close> of
  \<^verbatim>\<open>src/services/geminiService.ts\<close> (lines 131-208), without its simulated
  one-second delay.  The function is split along its own blocks: the score lookup
  \<open>getScore\<close>, the if/else-if chain choosing the solution type
  (\<open>advice_strategy\<close>), the filter/sort/slice of improvement suggestions
  (\<open>improvements\<close>) and the max/min balance warning (\<open>balance_warning\<close>).
  The lemmas show the classification rule chain on a well-formed score list, the
  equality of the sort-then-slice with the reference selection of the two lowest
  low scores, the exact condition of the balance warning and the extremes it
  names, and the behaviour on an empty input.
\<close>

section \<open>Definitions\<close>

text \<open>\<open>getLowScoreSuggestion\<close>: a \<open>switch\<close> on the label, with a template default.\<close>

definition getLowScoreSuggestion :: "label \<Rightarrow> message" where
  "getLowScoreSuggestion d =
    (if d = LABEL_business then LowScoreBusiness
     else if d = LABEL_tech then LowScoreTech
     else if d = LABEL_user then LowScoreUser
     else if d = LABEL_zeitgeist then LowScoreZeitgeist
     else if d = LABEL_ai then LowScoreAi
     else LowScoreGeneric d)"

text \<open>\<open>scores.find(s => s.subject === subject)?.value ?? 0\<close>\<close>

definition getScore :: "DimensionScore list \<Rightarrow> label \<Rightarrow> int" where
  "getScore scores subj = (case find (\<lambda>s. subject s = subj) scores of Some s \<Rightarrow> val s | None \<Rightarrow> 0)"

text \<open>The if/else-if chain: first matching rule wins; \<open>avg\<close> may be \<open>NaN\<close>.\<close>

definition advice_strategy :: "int \<Rightarrow> int \<Rightarrow> int \<Rightarrow> int \<Rightarrow> real option \<Rightarrow> solution_type \<times> message" where
  "advice_strategy ai user tech business avg =
    (if ai > 7 \<and> user > 6 \<and> tech > 6 then (Innovative, SummaryInnovative)
     else if business > 7 \<and> tech > 7 \<and> nan_less avg (13 / 2) then (Defensive, SummaryDefensive)
     else if nan_less avg (9 / 2) then (Exploratory, SummaryExploratory)
     else (Incremental, SummaryIncremental))"

text \<open>
  \<open>filter(value < 5).sort((a, b) => a.value - b.value).slice(0, 2).map(...)\<close>;
  \<open>Array.prototype.sort\<close> is stable, as \<open>sort_key\<close> is.
\<close>

definition improvements :: "DimensionScore list \<Rightarrow> Improvement list" where
  "improvements scores =
    map (\<lambda>s. \<lparr>dimension = subject s, suggestion = getLowScoreSuggestion (subject s)\<rparr>)
      (take 2 (sort_key val (filter (\<lambda>s. val s < 5) scores)))"

text \<open>\<open>if (max - min >= 5)\<close>: name the first score at the maximum and at the minimum.\<close>

definition balance_warning :: "DimensionScore list \<Rightarrow> message option" where
  "balance_warning scores =
    (let values = map val scores; mx = js_max values; mn = js_min values
     in if spread_at_least mx mn 5
        then Some (BalanceWarning (map_option subject (find (\<lambda>s. Some (val s) = mx) scores))
                                  (map_option subject (find (\<lambda>s. Some (val s) = mn) scores)))
        else None)"

definition getDesignAdvice :: "DimensionScore list \<Rightarrow> Suggestion" where
  "getDesignAdvice scores =
    (let values = map val scores;
         avg = js_mean values;
         tech = getScore scores LABEL_tech;
         user = getScore scores LABEL_user;
         ai = getScore scores LABEL_ai;
         business = getScore scores LABEL_business;
         (t, summary) = advice_strategy ai user tech business avg
     in \<lparr>solutionType = t, strategicSummary = summary,
         improvementSuggestions = improvements scores,
         balanceWarning = balance_warning scores\<rparr>)"

section \<open>Lemmas on the parts\<close>

lemma getScore_scores_of [simp]:
  "getScore (scores_of [b, t, u, z, a]) LABEL_business = b"
  "getScore (scores_of [b, t, u, z, a]) LABEL_tech = t"
  "getScore (scores_of [b, t, u, z, a]) LABEL_user = u"
  "getScore (scores_of [b, t, u, z, a]) LABEL_zeitgeist = z"
  "getScore (scores_of [b, t, u, z, a]) LABEL_ai = a"
  by (simp_all add: getScore_def)

lemma getDesignAdvice_parts:
  "solutionType (getDesignAdvice ss) =
     fst (advice_strategy (getScore ss LABEL_ai) (getScore ss LABEL_user)
            (getScore ss LABEL_tech) (getScore ss LABEL_business) (js_mean (map val ss)))"
  "strategicSummary (getDesignAdvice ss) =
     snd (advice_strategy (getScore ss LABEL_ai) (getScore ss LABEL_user)
            (getScore ss LABEL_tech) (getScore ss LABEL_business) (js_mean (map val ss)))"
  "improvementSuggestions (getDesignAdvice ss) = improvements ss"
  "balanceWarning (getDesignAdvice ss) = balance_warning ss"
  by (simp_all add: getDesignAdvice_def Let_def split: prod.split)

lemma fst_advice_strategy:
  "fst (advice_strategy ai user tech business avg) =
    (if ai > 7 \<and> user > 6 \<and> tech > 6 then Innovative
     else if business > 7 \<and> tech > 7 \<and> nan_less avg (13 / 2) then Defensive
     else if nan_less avg (9 / 2) then Exploratory
     else Incremental)"
  unfolding advice_strategy_def by (simp only: if_distrib [of fst] fst_conv)

lemma js_mean_5: "js_mean [b, t, u, z, a] = Some (real_of_int (b + t + u + z + a) / 5)"
  by (simp add: js_mean_def add.assoc)

lemma find_first_Max:
  assumes "xs \<noteq> []"
  obtains pre x post where "find (\<lambda>s. f s = Max (f ` set xs)) xs = Some x"
    "xs = pre @ x # post" "f x = Max (f ` set xs)" "\<forall>s\<in>set pre. f s < f x"
proof -
  let ?M = "Max (f ` set xs)"
  have "?M \<in> f ` set xs" using assms by (intro Max_in) simp_all
  then obtain s0 where s0: "s0 \<in> set xs" "f s0 = ?M" by auto
  then have "find (\<lambda>s. f s = ?M) xs \<noteq> None"
    unfolding find_None_iff by blast
  then obtain x where fx: "find (\<lambda>s. f s = ?M) xs = Some x" by blast
  then obtain pre post where split: "xs = pre @ x # post" "\<forall>a\<in>set pre. f a \<noteq> ?M" "f x = ?M"
    by (rule find_first_split)
  have lt: "\<forall>s\<in>set pre. f s < f x"
  proof
    fix s assume s: "s \<in> set pre"
    then have "f s \<le> ?M" using split(1) by (intro Max_ge) auto
    moreover have "f s \<noteq> ?M" using split(2) s by blast
    ultimately show "f s < f x" using split(3) by simp
  qed
  show ?thesis by (rule that [OF fx split(1) split(3) lt])
qed

lemma find_first_Min:
  assumes "xs \<noteq> []"
  obtains pre x post where "find (\<lambda>s. f s = Min (f ` set xs)) xs = Some x"
    "xs = pre @ x # post" "f x = Min (f ` set xs)" "\<forall>s\<in>set pre. f x < f s"
proof -
  let ?M = "Min (f ` set xs)"
  have "?M \<in> f ` set xs" using assms by (intro Min_in) simp_all
  then obtain s0 where s0: "s0 \<in> set xs" "f s0 = ?M" by auto
  then have "find (\<lambda>s. f s = ?M) xs \<noteq> None"
    unfolding find_None_iff by blast
  then obtain x where fx: "find (\<lambda>s. f s = ?M) xs = Some x" by blast
  then obtain pre post where split: "xs = pre @ x # post" "\<forall>a\<in>set pre. f a \<noteq> ?M" "f x = ?M"
    by (rule find_first_split)
  have lt: "\<forall>s\<in>set pre. f x < f s"
  proof
    fix s assume s: "s \<in> set pre"
    then have "?M \<le> f s" using split(1) by (intro Min_le) auto
    moreover have "f s \<noteq> ?M" using split(2) s by blast
    ultimately show "f x < f s" using split(3) by simp
  qed
  show ?thesis by (rule that [OF fx split(1) split(3) lt])
qed

lemma balance_warning_eq:
  "balance_warning ss =
    (if ss \<noteq> [] \<and> 5 \<le> Max (val ` set ss) - Min (val ` set ss)
     then Some (BalanceWarning (map_option subject (find (\<lambda>s. val s = Max (val ` set ss)) ss))
                               (map_option subject (find (\<lambda>s. val s = Min (val ` set ss)) ss)))
     else None)"
proof (cases "ss = []")
  case True
  then show ?thesis by (simp add: balance_warning_def)
next
  case False
  then have "js_max (map val ss) = Some (Max (val ` set ss))"
    "js_min (map val ss) = Some (Min (val ` set ss))"
    by (simp_all add: js_max_Max js_min_Min)
  with False show ?thesis
    by (simp add: balance_warning_def Let_def)
qed

section \<open>Properties\<close>

text \<open>
  C1.  Classification: on the five scores of a well-formed list, the solution type
  is the spec's ordered rule chain over \<open>ai\<close>, \<open>user\<close>, \<open>tech\<close>,
  \<open>business\<close> and the mean of all five values, unset dimensions counting 0.
\<close>

theorem getDesignAdvice_classification:
  "solutionType (getDesignAdvice (scores_of [b, t, u, z, a])) =
    (let avg = real_of_int (b + t + u + z + a) / 5
     in if a > 7 \<and> u > 6 \<and> t > 6 then Innovative
        else if b > 7 \<and> t > 7 \<and> avg < 13 / 2 then Defensive
        else if avg < 9 / 2 then Exploratory
        else Incremental)"
proof -
  have "map val (scores_of [b, t, u, z, a]) = [b, t, u, z, a]" by simp
  then show ?thesis
    by (simp only: getDesignAdvice_parts getScore_scores_of js_mean_5 fst_advice_strategy
        nan_less.simps Let_def)
qed

text \<open>
  C2.  Improvement suggestions: the sort-then-slice equals the reference selection
  of the two lowest scores below 5, ties in dimension order, each with its advice.
\<close>

theorem getDesignAdvice_improvements_lowest:
  "improvementSuggestions (getDesignAdvice ss) =
    map (\<lambda>s. \<lparr>dimension = subject s, suggestion = getLowScoreSuggestion (subject s)\<rparr>)
      (select_lowest val 2 (filter (\<lambda>s. val s < 5) ss))"
  by (simp add: getDesignAdvice_parts improvements_def take_sort_key_select_lowest)

text \<open>
  C3.  Balance warning: present exactly when the highest and lowest of the
  (non-empty) score list are at least 5 apart.
\<close>

theorem getDesignAdvice_balance_warning_iff:
  assumes "ss \<noteq> []"
  shows "balanceWarning (getDesignAdvice ss) \<noteq> None \<longleftrightarrow>
           5 \<le> Max (val ` set ss) - Min (val ` set ss)"
  using assms by (simp add: getDesignAdvice_parts balance_warning_eq)

theorem getDesignAdvice_balance_warning_iff_witness:
  "scores_of [9, 7, 6, 4, 3] \<noteq> [] \<and>
   (balanceWarning (getDesignAdvice (scores_of [9, 7, 6, 4, 3])) \<noteq> None \<longleftrightarrow>
    5 \<le> Max (val ` set (scores_of [9, 7, 6, 4, 3])) - Min (val ` set (scores_of [9, 7, 6, 4, 3])))"
proof -
  have ne: "scores_of [9, 7, 6, 4, 3] \<noteq> []" by simp
  show ?thesis using getDesignAdvice_balance_warning_iff [OF ne] ne by simp
qed

text \<open>
  C4.  The balance warning names the first score at the maximum and the first
  score at the minimum (earlier scores are strictly lower, resp. higher).
\<close>

theorem getDesignAdvice_warning_extremes:
  assumes "balanceWarning (getDesignAdvice ss) = Some w"
  shows "\<exists>pre hi post pre' lo post'. w = BalanceWarning (Some (subject hi)) (Some (subject lo))
           \<and> ss = pre @ hi # post \<and> val hi = Max (val ` set ss) \<and> (\<forall>s\<in>set pre. val s < val hi)
           \<and> ss = pre' @ lo # post' \<and> val lo = Min (val ` set ss) \<and> (\<forall>s\<in>set pre'. val lo < val s)"
proof -
  from assms have bw: "balance_warning ss = Some w"
    by (simp add: getDesignAdvice_parts)
  then have ne: "ss \<noteq> []"
    and w: "w = BalanceWarning (map_option subject (find (\<lambda>s. val s = Max (val ` set ss)) ss))
                               (map_option subject (find (\<lambda>s. val s = Min (val ` set ss)) ss))"
    unfolding balance_warning_eq by (simp_all split: if_split_asm)
  obtain pre hi post where hi: "find (\<lambda>s. val s = Max (val ` set ss)) ss = Some hi"
    "ss = pre @ hi # post" "val hi = Max (val ` set ss)" "\<forall>s\<in>set pre. val s < val hi"
    using ne by (rule find_first_Max)
  obtain pre' lo post' where lo: "find (\<lambda>s. val s = Min (val ` set ss)) ss = Some lo"
    "ss = pre' @ lo # post'" "val lo = Min (val ` set ss)" "\<forall>s\<in>set pre'. val lo < val s"
    using ne by (rule find_first_Min)
  have "w = BalanceWarning (Some (subject hi)) (Some (subject lo))"
    using w hi(1) lo(1) by simp
  then show ?thesis
    using hi(2-4) lo(2-4) by blast
qed

theorem getDesignAdvice_warning_extremes_witness:
  "balanceWarning (getDesignAdvice (scores_of [9, 7, 6, 4, 3])) =
     Some (BalanceWarning (Some LABEL_business) (Some LABEL_ai)) \<and>
   (\<exists>pre hi post pre' lo post'.
      BalanceWarning (Some LABEL_business) (Some LABEL_ai) = BalanceWarning (Some (subject hi)) (Some (subject lo))
      \<and> scores_of [9, 7, 6, 4, 3] = pre @ hi # post \<and> val hi = Max (val ` set (scores_of [9, 7, 6, 4, 3]))
      \<and> (\<forall>s\<in>set pre. val s < val hi)
      \<and> scores_of [9, 7, 6, 4, 3] = pre' @ lo # post' \<and> val lo = Min (val ` set (scores_of [9, 7, 6, 4, 3]))
      \<and> (\<forall>s\<in>set pre'. val lo < val s))"
proof -
  have h: "balanceWarning (getDesignAdvice (scores_of [9, 7, 6, 4, 3])) =
     Some (BalanceWarning (Some LABEL_business) (Some LABEL_ai))"
    by (simp add: getDesignAdvice_parts balance_warning_def)
  show ?thesis using getDesignAdvice_warning_extremes [OF h] h by blast
qed



end
