(* ===== verification/Profiles.thy ===== *)
theory Profiles
  imports Types
begin

text \<open>
  The profile lookup, \<^verbatim>\<open>analyzeUrlAndScore\<close> of
  \<^verbatim>\<open>src/services/geminiService.ts\<close> (lines 5-127), without its simulated
  1.5-second delay: the four canned analysis results, the validation of the URL
  (empty or not starting with \<open>http\<close> throws, here the error value
  \<open>Inl ErrInvalidUrl\<close>), and the three case-insensitive regular expressions
  tried in order.  The lemmas show when the lookup fails, that a valid URL always
  yields one of the four profiles, that the result depends only on the
  lower-cased URL, the priority of the patterns, and that every profile carries
  one score per dimension, in registry order, within 0..10.
\<close>

section \<open>The canned profiles\<close>

definition ai_scores_of :: "int list \<Rightarrow> AIScore list" where
  "ai_scores_of vs = map2 (\<lambda>d v. \<lparr>ai_dimension = label d, ai_val = v\<rparr>) DIMENSIONS vs"

definition ECOMMERCE_PROFILE :: AnalysisResult where
  [table_defs]: "ECOMMERCE_PROFILE =
    \<lparr>result_scores = ai_scores_of [9, 7, 6, 4, 3],
     result_suggestions =
       \<lparr>solutionType = Incremental, strategicSummary = ProfileSummary ECOMMERCE,
        improvementSuggestions =
          [\<lparr>dimension = LABEL_ai, suggestion = ProfileAdvice ECOMMERCE 0\<rparr>,
           \<lparr>dimension = LABEL_zeitgeist, suggestion = ProfileAdvice ECOMMERCE 1\<rparr>],
        balanceWarning = Some (ProfileBalanceWarning ECOMMERCE)\<rparr>\<rparr>"

definition SOCIAL_MEDIA_PROFILE :: AnalysisResult where
  [table_defs]: "SOCIAL_MEDIA_PROFILE =
    \<lparr>result_scores = ai_scores_of [4, 6, 9, 8, 5],
     result_suggestions =
       \<lparr>solutionType = Exploratory, strategicSummary = ProfileSummary SOCIAL_MEDIA,
        improvementSuggestions =
          [\<lparr>dimension = LABEL_business, suggestion = ProfileAdvice SOCIAL_MEDIA 0\<rparr>,
           \<lparr>dimension = LABEL_ai, suggestion = ProfileAdvice SOCIAL_MEDIA 1\<rparr>],
        balanceWarning = None\<rparr>\<rparr>"

definition SAAS_PROFILE :: AnalysisResult where
  [table_defs]: "SAAS_PROFILE =
    \<lparr>result_scores = ai_scores_of [6, 9, 7, 5, 8],
     result_suggestions =
       \<lparr>solutionType = Innovative, strategicSummary = ProfileSummary SAAS,
        improvementSuggestions =
          [\<lparr>dimension = LABEL_zeitgeist, suggestion = ProfileAdvice SAAS 0\<rparr>,
           \<lparr>dimension = LABEL_business, suggestion = ProfileAdvice SAAS 1\<rparr>],
        balanceWarning = None\<rparr>\<rparr>"

definition DEFAULT_PROFILE :: AnalysisResult where
  [table_defs]: "DEFAULT_PROFILE =
    \<lparr>result_scores = ai_scores_of [7, 8, 6, 5, 4],
     result_suggestions =
       \<lparr>solutionType = Incremental, strategicSummary = ProfileSummary DEFAULT,
        improvementSuggestions =
          [\<lparr>dimension = LABEL_ai, suggestion = ProfileAdvice DEFAULT 0\<rparr>,
           \<lparr>dimension = LABEL_zeitgeist, suggestion = ProfileAdvice DEFAULT 1\<rparr>],
        balanceWarning = Some (ProfileBalanceWarning DEFAULT)\<rparr>\<rparr>"

section \<open>The lookup\<close>

text \<open>The alternatives of the three regular expressions, in source order.\<close>

definition ECOMMERCE_PATTERN :: "string list" where
  "ECOMMERCE_PATTERN = [''shop'', ''store'', ''amazon'', ''commerce'', ''buy'']"

definition SOCIAL_PATTERN :: "string list" where
  "SOCIAL_PATTERN = [''social'', ''facebook'', ''twitter'', ''community'', ''forum'']"

definition SAAS_PATTERN :: "string list" where
  "SAAS_PATTERN = [''saas'', ''tech'', ''blog'', ''dev'', ''dashboard'']"

definition analyzeUrlAndScore :: "string \<Rightarrow> message + AnalysisResult" where
  "analyzeUrlAndScore url =
    (if url = [] \<or> \<not> starts_with url ''http'' then Inl ErrInvalidUrl
     else if regex_test_ci ECOMMERCE_PATTERN url then Inr ECOMMERCE_PROFILE
     else if regex_test_ci SOCIAL_PATTERN url then Inr SOCIAL_MEDIA_PROFILE
     else if regex_test_ci SAAS_PATTERN url then Inr SAAS_PROFILE
     else Inr DEFAULT_PROFILE)"

text \<open>
  A profile's scores are well formed when they name the five dimensions in
  registry order, each value within 0..10.
\<close>

definition wf_ai_scores :: "AIScore list \<Rightarrow> bool" where
  "wf_ai_scores ss \<longleftrightarrow> map ai_dimension ss = map label DIMENSIONS \<and>
     list_all (\<lambda>s. 0 \<le> ai_val s \<and> ai_val s \<le> 10) ss"

section \<open>Lemmas\<close>

lemma ai_scores_of_5 [simp]:
  "ai_scores_of [b, t, u, z, a] =
    [\<lparr>ai_dimension = LABEL_business, ai_val = b\<rparr>, \<lparr>ai_dimension = LABEL_tech, ai_val = t\<rparr>,
     \<lparr>ai_dimension = LABEL_user, ai_val = u\<rparr>, \<lparr>ai_dimension = LABEL_zeitgeist, ai_val = z\<rparr>,
     \<lparr>ai_dimension = LABEL_ai, ai_val = a\<rparr>]"
  by (simp add: ai_scores_of_def DIMENSIONS_def)

lemma starts_with_http_nonempty: "starts_with url ''http'' \<Longrightarrow> url \<noteq> []"
  by (auto simp: starts_with_def)

lemma regex_test_ci_lower:
  "map ascii_lower u = map ascii_lower v \<Longrightarrow> regex_test_ci ps u = regex_test_ci ps v"
  by (simp add: regex_test_ci_def)

lemma analyzeUrlAndScore_valid:
  "starts_with url ''http'' \<Longrightarrow>
   analyzeUrlAndScore url =
     (if regex_test_ci ECOMMERCE_PATTERN url then Inr ECOMMERCE_PROFILE
      else if regex_test_ci SOCIAL_PATTERN url then Inr SOCIAL_MEDIA_PROFILE
      else if regex_test_ci SAAS_PATTERN url then Inr SAAS_PROFILE
      else Inr DEFAULT_PROFILE)"
  by (simp add: analyzeUrlAndScore_def starts_with_http_nonempty)

lemma profiles_wf:
  "wf_ai_scores (result_scores ECOMMERCE_PROFILE)"
  "wf_ai_scores (result_scores SOCIAL_MEDIA_PROFILE)"
  "wf_ai_scores (result_scores SAAS_PROFILE)"
  "wf_ai_scores (result_scores DEFAULT_PROFILE)"
  by (simp_all add: wf_ai_scores_def table_defs)

section \<open>Properties\<close>

text \<open>
  C13.  The lookup fails, with the invalid-URL error, exactly when the URL does
  not start with \<open>http\<close> (in particular when it is empty); the prefix test is
  case-sensitive although the patterns are not.
\<close>

theorem analyzeUrlAndScore_error_iff:
  "analyzeUrlAndScore url = Inl e \<longleftrightarrow> e = ErrInvalidUrl \<and> \<not> starts_with url ''http''"
  by (auto simp: analyzeUrlAndScore_def starts_with_def)



text \<open>
  C15.  The patterns are case-insensitive: two valid URLs that agree after
  ASCII lower-casing get the same profile.
\<close>

theorem analyzeUrlAndScore_case_insensitive:
  assumes "starts_with u ''http''" and "starts_with v ''http''"
    and "map ascii_lower u = map ascii_lower v"
  shows "analyzeUrlAndScore u = analyzeUrlAndScore v"
  using assms by (simp add: analyzeUrlAndScore_valid regex_test_ci_lower [OF assms(3)])

theorem analyzeUrlAndScore_case_insensitive_witness:
  "starts_with ''https://SHOP.example'' ''http'' \<and> starts_with ''https://shop.example'' ''http'' \<and>
   map ascii_lower ''https://SHOP.example'' = map ascii_lower ''https://shop.example'' \<and>
   analyzeUrlAndScore ''https://SHOP.example'' = analyzeUrlAndScore ''https://shop.example''"
proof -
  have h1: "starts_with ''https://SHOP.example'' ''http''" by code_simp
  have h2: "starts_with ''https://shop.example'' ''http''" by code_simp
  have h3: "map ascii_lower ''https://SHOP.example'' = map ascii_lower ''https://shop.example''"
    by code_simp
  show ?thesis using analyzeUrlAndScore_case_insensitive [OF h1 h2 h3] h1 h2 h3 by blast
qed

text \<open>
  C16.  Priority: a valid URL matching the e-commerce pattern gets the e-commerce
  profile whatever else it matches; the social profile needs the social pattern
  and no e-commerce word.
\<close>

theorem analyzeUrlAndScore_priority:
  assumes "starts_with url ''http''"
  shows "(analyzeUrlAndScore url = Inr ECOMMERCE_PROFILE \<longleftrightarrow> regex_test_ci ECOMMERCE_PATTERN url) \<and>
         (analyzeUrlAndScore url = Inr SOCIAL_MEDIA_PROFILE \<longleftrightarrow>
            \<not> regex_test_ci ECOMMERCE_PATTERN url \<and> regex_test_ci SOCIAL_PATTERN url)"
  using assms by (simp add: analyzeUrlAndScore_valid table_defs)

theorem analyzeUrlAndScore_priority_witness:
  "starts_with ''https://shop.community.net'' ''http'' \<and>
   (analyzeUrlAndScore ''https://shop.community.net'' = Inr ECOMMERCE_PROFILE \<longleftrightarrow>
      regex_test_ci ECOMMERCE_PATTERN ''https://shop.community.net'') \<and>
   (analyzeUrlAndScore ''https://shop.community.net'' = Inr SOCIAL_MEDIA_PROFILE \<longleftrightarrow>
      \<not> regex_test_ci ECOMMERCE_PATTERN ''https://shop.community.net'' \<and>
      regex_test_ci SOCIAL_PATTERN ''https://shop.community.net'')"
proof -
  have h: "starts_with ''https://shop.community.net'' ''http''" by code_simp
  show ?thesis using analyzeUrlAndScore_priority [OF h] h by blast
qed




end
