(* ===== verification/App.thy ===== *)
theory App
  imports Advice Profiles
begin

text \<open>
  The score store and the event handlers of \<^verbatim>\<open>src/App.tsx\<close> and
  \<^verbatim>\<open>src/components/ScoreControls.tsx\<close>, as a state machine.  The state is the
  record of React state variables of \<open>App\<close> (plus \<open>urlInput\<close> of
  \<open>ScoreControls\<close>, the debounced copy of the scores kept by \<open>useDebounce\<close>, and
  the list of asynchronous calls in flight).  Each user action is an event; a
  control that is disabled (\<open>disabled={isBusy}\<close>) or not rendered
  (\<open>isPristine ? ... : ...\<close>) ignores it.  An asynchronous call
  (\<open>getDesignAdvice\<close>, \<open>analyzeUrlAndScore\<close>) is split at its \<open>await\<close>: the
  click runs the code before it and queues a request; the event \<open>Resolve i\<close>
  delivers the \<open>i\<close>-th pending request in any order, running the code after the
  \<open>await\<close> and the \<open>finally\<close> block.  \<open>useDebounce\<close> (not in \<^verbatim>\<open>src/\<close>)
  is the environment event \<open>DebounceFire\<close>, which may happen at any time.

  The invariants proved over all reachable states: the score lists keep the
  five labels in order with values in 0..10; the loading flags say exactly which
  call is in flight, and at most one call is in flight at a time; a pristine
  state still has the initial scores and no suggestion.
\<close>

section \<open>State and events\<close>

datatype request = AdviceReq "DimensionScore list" | UrlReq string

record AppState =
  scores :: "DimensionScore list"
  debouncedScores :: "DimensionScore list"
  suggestions :: "Suggestion option"
  isLoading :: bool
  isAnalyzingUrl :: bool
  error :: "message option"
  showComparison :: bool
  isPristine :: bool
  urlInput :: string
  pending :: "request list"

datatype event =
    Slider dim_key int
  | StartManual
  | ToggleComparison
  | EditUrl string
  | ClickAnalyze
  | ClickGetAdvice
  | DebounceFire
  | Resolve nat

text \<open>The initial state: every dimension at 0 (unset), nothing loading, pristine.\<close>

definition initial_scores :: "DimensionScore list" where
  "initial_scores = map (\<lambda>d. \<lparr>subject = label d, val = 0, fullMark = 10\<rparr>) DIMENSIONS"

definition initial_state :: AppState where
  "initial_state =
    \<lparr>scores = initial_scores, debouncedScores = initial_scores, suggestions = None,
     isLoading = False, isAnalyzingUrl = False, error = None, showComparison = False,
     isPristine = True, urlInput = [], pending = []\<rparr>"

section \<open>Handlers\<close>

definition handleScoresChange :: "DimensionScore list \<Rightarrow> AppState \<Rightarrow> AppState" where
  "handleScoresChange newScores s = s\<lparr>scores := newScores\<rparr>"

definition handleStartManualScoring :: "AppState \<Rightarrow> AppState" where
  "handleStartManualScoring s = s\<lparr>isPristine := False\<rparr>"

definition handleSliderChange :: "label \<Rightarrow> int \<Rightarrow> AppState \<Rightarrow> AppState" where
  "handleSliderChange subj v s =
    handleScoresChange (map (\<lambda>x. if subject x = subj then x\<lparr>val := v\<rparr> else x) (scores s)) s"

text \<open>\<open>fetchSuggestions\<close> up to its \<open>await\<close>: the call captures \<open>debouncedScores\<close>.\<close>

definition fetchSuggestions_start :: "AppState \<Rightarrow> AppState" where
  "fetchSuggestions_start s =
    s\<lparr>isLoading := True, error := None, suggestions := None,
      pending := pending s @ [AdviceReq (debouncedScores s)]\<rparr>"

text \<open>After the \<open>await\<close>: \<open>getDesignAdvice\<close> never throws, so the \<open>catch\<close> is dead.\<close>

definition fetchSuggestions_done :: "DimensionScore list \<Rightarrow> AppState \<Rightarrow> AppState" where
  "fetchSuggestions_done ss s = s\<lparr>suggestions := Some (getDesignAdvice ss), isLoading := False\<rparr>"

text \<open>\<open>DIMENSIONS.map(dim => ... foundScore ? foundScore.value : 5 ...)\<close>\<close>

definition mapResultScores :: "AnalysisResult \<Rightarrow> DimensionScore list" where
  "mapResultScores r =
    map (\<lambda>dim. \<lparr>subject = label dim,
                val = (case find (\<lambda>a. ai_dimension a = label dim) (result_scores r) of
                         Some f \<Rightarrow> ai_val f | None \<Rightarrow> 5),
                fullMark = 10\<rparr>) DIMENSIONS"

definition handleUrlAnalysis_start :: "string \<Rightarrow> AppState \<Rightarrow> AppState" where
  "handleUrlAnalysis_start url s =
    (if url = [] then s\<lparr>error := Some ErrInvalidUrl\<rparr>
     else s\<lparr>isAnalyzingUrl := True, error := None, suggestions := None,
            pending := pending s @ [UrlReq url]\<rparr>)"

definition handleUrlAnalysis_done :: "string \<Rightarrow> AppState \<Rightarrow> AppState" where
  "handleUrlAnalysis_done url s =
    (case analyzeUrlAndScore url of
       Inl e \<Rightarrow> s\<lparr>error := Some ErrUrlFailed, isAnalyzingUrl := False\<rparr>
     | Inr result \<Rightarrow>
         s\<lparr>scores := mapResultScores result, suggestions := Some (result_suggestions result),
           isPristine := False, isAnalyzingUrl := False\<rparr>)"

definition debounce_fire :: "AppState \<Rightarrow> AppState" where
  "debounce_fire s = s\<lparr>debouncedScores := scores s\<rparr>"

definition isBusy :: "AppState \<Rightarrow> bool" where
  "isBusy s \<longleftrightarrow> isLoading s \<or> isAnalyzingUrl s"

definition hasScores :: "AppState \<Rightarrow> bool" where
  "hasScores s \<longleftrightarrow> list_ex (\<lambda>x. val x > 0) (scores s)"

definition dim_label :: "dim_key \<Rightarrow> label" where
  "dim_label k = (case find (\<lambda>d. key d = k) DIMENSIONS of Some d \<Rightarrow> label d | None \<Rightarrow> [])"

text \<open>Delivering the \<open>i\<close>-th pending request removes it from the queue.\<close>

definition resolve :: "nat \<Rightarrow> AppState \<Rightarrow> AppState" where
  "resolve i s =
    (if i < length (pending s)
     then (let s' = s\<lparr>pending := take i (pending s) @ drop (Suc i) (pending s)\<rparr>
           in case pending s ! i of
                AdviceReq ss \<Rightarrow> fetchSuggestions_done ss s'
              | UrlReq url \<Rightarrow> handleUrlAnalysis_done url s')
     else s)"

text \<open>One event, with the guards of the rendered controls.\<close>

fun app_step :: "AppState \<Rightarrow> event \<Rightarrow> AppState" where
  "app_step s (Slider k v) =
     (if \<not> isPristine s \<and> \<not> isBusy s then handleSliderChange (dim_label k) v s else s)"
| "app_step s StartManual = (if isPristine s then handleStartManualScoring s else s)"
| "app_step s ToggleComparison =
     (if \<not> isPristine s then s\<lparr>showComparison := \<not> showComparison s\<rparr> else s)"
| "app_step s (EditUrl u) = (if \<not> isBusy s then s\<lparr>urlInput := u\<rparr> else s)"
| "app_step s ClickAnalyze = (if \<not> isBusy s then handleUrlAnalysis_start (urlInput s) s else s)"
| "app_step s ClickGetAdvice =
     (if \<not> isBusy s \<and> hasScores s then fetchSuggestions_start s else s)"
| "app_step s DebounceFire = debounce_fire s"
| "app_step s (Resolve i) = resolve i s"

text \<open>A range input delivers \<open>parseInt\<close> of a value in \<open>min="0"\<close>..\<open>max="10"\<close>.\<close>

fun event_ok :: "event \<Rightarrow> bool" where
  "event_ok (Slider k v) = (0 \<le> v \<and> v \<le> 10)"
| "event_ok _ = True"

fun app_run :: "AppState \<Rightarrow> event list \<Rightarrow> AppState" where
  "app_run s [] = s"
| "app_run s (e # es) = app_run (app_step s e) es"

inductive reachable :: "AppState \<Rightarrow> bool" where
  init: "reachable initial_state"
| step: "reachable s \<Longrightarrow> event_ok e \<Longrightarrow> reachable (app_step s e)"

section \<open>Invariants\<close>

definition req_ok :: "request \<Rightarrow> bool" where
  "req_ok r = (case r of AdviceReq ss \<Rightarrow> wf_scores ss | UrlReq u \<Rightarrow> True)"

definition scores_inv :: "AppState \<Rightarrow> bool" where
  "scores_inv s \<longleftrightarrow> wf_scores (scores s) \<and> wf_scores (debouncedScores s) \<and> list_all req_ok (pending s)"

definition busy_inv :: "AppState \<Rightarrow> bool" where
  "busy_inv s \<longleftrightarrow> length (pending s) \<le> 1 \<and>
     isLoading s = list_ex (\<lambda>r. case r of AdviceReq _ \<Rightarrow> True | UrlReq _ \<Rightarrow> False) (pending s) \<and>
     isAnalyzingUrl s = list_ex (\<lambda>r. case r of AdviceReq _ \<Rightarrow> False | UrlReq _ \<Rightarrow> True) (pending s)"

definition pristine_inv :: "AppState \<Rightarrow> bool" where
  "pristine_inv s \<longleftrightarrow> (isPristine s \<longrightarrow>
     scores s = initial_scores \<and> debouncedScores s = initial_scores \<and> suggestions s = None \<and>
     list_all (\<lambda>r. case r of AdviceReq _ \<Rightarrow> False | UrlReq _ \<Rightarrow> True) (pending s))"

section \<open>Lemmas\<close>

lemma initial_scores_eq [simp]: "initial_scores = scores_of [0, 0, 0, 0, 0]"
  by (simp add: initial_scores_def DIMENSIONS_def)

lemma dim_label_simps [simp]:
  "dim_label Business = LABEL_business" "dim_label Tech = LABEL_tech" "dim_label User = LABEL_user"
  "dim_label Zeitgeist = LABEL_zeitgeist" "dim_label Ai = LABEL_ai"
  by (simp_all add: dim_label_def DIMENSIONS_def)

lemma map_subject_update [simp]:
  "map subject (map (\<lambda>x. if subject x = l then x\<lparr>val := v\<rparr> else x) ss) = map subject ss"
  by (induction ss) auto

lemma wf_scores_update:
  assumes "wf_scores ss" "0 \<le> v" "v \<le> 10"
  shows "wf_scores (map (\<lambda>x. if subject x = l then x\<lparr>val := v\<rparr> else x) ss)"
  using assms by (auto simp: wf_scores_def score_ok_def list_all_iff)

lemma wf_mapResultScores:
  assumes "list_all (\<lambda>a. 0 \<le> ai_val a \<and> ai_val a \<le> 10) (result_scores r)"
  shows "wf_scores (mapResultScores r)"
proof -
  have "0 \<le> ai_val f \<and> ai_val f \<le> 10" if "find P (result_scores r) = Some f" for P f
    using that assms by (auto simp: find_Some_iff list_all_iff)
  then have "list_all score_ok (mapResultScores r)"
    by (auto simp: score_ok_def mapResultScores_def list_all_iff split: option.split)
  moreover have "map subject (mapResultScores r) = map label DIMENSIONS"
    unfolding mapResultScores_def by (simp only: map_map comp_def DimensionScore.select_convs)
  ultimately show ?thesis by (simp add: wf_scores_def)
qed

lemma analyzeUrlAndScore_values:
  "analyzeUrlAndScore url = Inr r \<Longrightarrow> list_all (\<lambda>a. 0 \<le> ai_val a \<and> ai_val a \<le> 10) (result_scores r)"
  using profiles_wf by (auto simp: analyzeUrlAndScore_def wf_ai_scores_def split: if_splits)

lemma pending_remove_set: "set (take i xs @ drop (Suc i) xs) \<subseteq> set xs"
  by (auto dest: in_set_takeD in_set_dropD)

lemma nth_in_pending: "i < length xs \<Longrightarrow> xs ! i \<in> set xs"
  by simp

lemma scores_inv_step:
  assumes "scores_inv s" "event_ok e"
  shows "scores_inv (app_step s e)"
proof (cases e)
  case (Slider k v)
  with assms show ?thesis
    by (auto simp: scores_inv_def handleSliderChange_def handleScoresChange_def wf_scores_update)
next
  case (Resolve i)
  show ?thesis
  proof (cases "i < length (pending s)")
    case True
    then have ok: "req_ok (pending s ! i)"
      using assms(1) by (auto simp: scores_inv_def list_all_iff)
    have rest: "list_all req_ok (take i (pending s) @ drop (Suc i) (pending s))"
      using assms(1) pending_remove_set [of i "pending s"] by (auto simp: scores_inv_def list_all_iff)
    show ?thesis
      using True Resolve assms(1) ok rest wf_mapResultScores analyzeUrlAndScore_values
      by (auto simp: scores_inv_def resolve_def Let_def req_ok_def fetchSuggestions_done_def
          handleUrlAnalysis_done_def split: request.split sum.split)
  next
    case False
    with Resolve assms show ?thesis by (simp add: resolve_def)
  qed
qed (use assms in \<open>auto simp: scores_inv_def handleStartManualScoring_def handleUrlAnalysis_start_def
        fetchSuggestions_start_def debounce_fire_def req_ok_def\<close>)

lemma busy_inv_idle:
  assumes "busy_inv s" "\<not> isBusy s"
  shows "pending s = []"
proof (cases "pending s")
  case (Cons r rs)
  with assms show ?thesis
    by (cases r) (auto simp: busy_inv_def isBusy_def)
qed simp

lemma busy_inv_single:
  assumes "busy_inv s" "i < length (pending s)"
  shows "i = 0 \<and> pending s = [pending s ! 0]"
proof -
  from assms have "length (pending s) = 1" by (simp add: busy_inv_def)
  with assms(2) show ?thesis by (cases "pending s") auto
qed

lemma busy_inv_step:
  assumes "busy_inv s"
  shows "busy_inv (app_step s e)"
proof (cases e)
  case ClickAnalyze
  with assms busy_inv_idle [OF assms] show ?thesis
    by (auto simp: busy_inv_def isBusy_def handleUrlAnalysis_start_def)
next
  case ClickGetAdvice
  with assms busy_inv_idle [OF assms] show ?thesis
    by (auto simp: busy_inv_def isBusy_def fetchSuggestions_start_def)
next
  case (Resolve i)
  show ?thesis
  proof (cases "i < length (pending s)")
    case True
    with busy_inv_single [OF assms] obtain r where i: "i = 0" and p: "pending s = [r]"
      by (metis nth_Cons_0)
    show ?thesis
      using assms Resolve i p
      by (cases r) (auto simp: busy_inv_def resolve_def Let_def fetchSuggestions_done_def
          handleUrlAnalysis_done_def split: sum.split)
  next
    case False
    with Resolve assms show ?thesis by (simp add: resolve_def)
  qed
qed (use assms in \<open>auto simp: busy_inv_def handleSliderChange_def handleScoresChange_def
        handleStartManualScoring_def debounce_fire_def\<close>)

lemma hasScores_initial: "\<not> hasScores (s\<lparr>scores := initial_scores\<rparr>)" "scores s = initial_scores \<Longrightarrow> \<not> hasScores s"
  by (simp_all add: hasScores_def)

lemma pristine_inv_step:
  assumes "pristine_inv s"
  shows "pristine_inv (app_step s e)"
proof (cases e)
  case ClickGetAdvice
  with assms show ?thesis
    by (auto simp: pristine_inv_def fetchSuggestions_start_def hasScores_initial(2))
next
  case (Resolve i)
  show ?thesis
  proof (cases "i < length (pending s) \<and> isPristine s")
    case True
    then have r: "pending s ! i \<in> set (pending s)" by simp
    with True assms obtain u where u: "pending s ! i = UrlReq u"
      by (cases "pending s ! i") (auto simp: pristine_inv_def list_all_iff)
    have rest: "list_all (\<lambda>r. case r of AdviceReq _ \<Rightarrow> False | UrlReq _ \<Rightarrow> True)
                  (take i (pending s) @ drop (Suc i) (pending s))"
      using True assms pending_remove_set [of i "pending s"]
      by (auto simp: pristine_inv_def list_all_iff)
    show ?thesis
      using True Resolve assms u rest
      by (auto simp: pristine_inv_def resolve_def Let_def handleUrlAnalysis_done_def split: sum.split)
  next
    case False
    with Resolve assms show ?thesis
      by (auto simp: pristine_inv_def resolve_def Let_def fetchSuggestions_done_def
          handleUrlAnalysis_done_def split: request.split sum.split)
  qed
qed (use assms in \<open>auto simp: pristine_inv_def handleSliderChange_def handleScoresChange_def
        handleStartManualScoring_def debounce_fire_def handleUrlAnalysis_start_def\<close>)

lemma invariants_initial:
  "scores_inv initial_state" "busy_inv initial_state" "pristine_inv initial_state"
  by (simp_all add: initial_state_def scores_inv_def busy_inv_def pristine_inv_def wf_scores_def score_ok_def)

lemma reachable_invariants:
  assumes "reachable s"
  shows "scores_inv s \<and> busy_inv s \<and> pristine_inv s"
  using assms
proof (induction rule: reachable.induct)
  case init
  show ?case using invariants_initial by simp
next
  case (step s e)
  then show ?case using scores_inv_step busy_inv_step pristine_inv_step by blast
qed

lemma reachable_app_run:
  "reachable s \<Longrightarrow> list_all event_ok es \<Longrightarrow> reachable (app_run s es)"
  by (induction es arbitrary: s) (auto intro: reachable.step)

lemma shop_lookup: "analyzeUrlAndScore ''https://shop'' = Inr ECOMMERCE_PROFILE"
  by code_simp

lemma mapResultScores_ecommerce: "mapResultScores ECOMMERCE_PROFILE = scores_of [9, 7, 6, 4, 3]"
  by (simp add: mapResultScores_def ECOMMERCE_PROFILE_def DIMENSIONS_def)

section \<open>Properties\<close>

text \<open>
  C19.  In every reachable state the score list and its debounced copy carry the
  five dimension labels in registry order with values in 0..10 (the slider's
  range, the canned profiles' values, or the default 5 for a missing dimension).
\<close>

theorem reachable_scores_wf:
  assumes "reachable s"
  shows "wf_scores (scores s) \<and> wf_scores (debouncedScores s)"
  using reachable_invariants [OF assms] by (simp add: scores_inv_def)

theorem reachable_scores_wf_witness:
  "wf_scores (scores (app_run initial_state [StartManual, Slider Tech 8])) \<and>
   wf_scores (debouncedScores (app_run initial_state [StartManual, Slider Tech 8]))"
proof -
  have h: "reachable (app_run initial_state [StartManual, Slider Tech 8])"
    by (rule reachable_app_run) (simp_all add: reachable.init)
  show ?thesis using reachable_scores_wf [OF h] .
qed

text \<open>
  C20.  Because every control that starts a call is disabled while one is in
  flight, at most one asynchronous call is pending in any reachable state, and
  the busy flag is set exactly while it is: no two responses can race.
\<close>

theorem reachable_single_request:
  assumes "reachable s"
  shows "length (pending s) \<le> 1 \<and> (isBusy s \<longleftrightarrow> pending s \<noteq> [])"
proof -
  have inv: "busy_inv s" using reachable_invariants [OF assms] by simp
  then have "length (pending s) \<le> 1" by (simp add: busy_inv_def)
  moreover have "isBusy s \<longleftrightarrow> pending s \<noteq> []"
  proof
    assume "isBusy s"
    then show "pending s \<noteq> []" using inv by (auto simp: busy_inv_def isBusy_def)
  next
    assume "pending s \<noteq> []"
    then obtain r rs where "pending s = r # rs" by (cases "pending s") auto
    then show "isBusy s" using inv by (cases r) (auto simp: busy_inv_def isBusy_def)
  qed
  ultimately show ?thesis by blast
qed

theorem reachable_single_request_witness:
  "length (pending (app_run initial_state [EditUrl ''https://shop'', ClickAnalyze])) \<le> 1 \<and>
   (isBusy (app_run initial_state [EditUrl ''https://shop'', ClickAnalyze]) \<longleftrightarrow>
    pending (app_run initial_state [EditUrl ''https://shop'', ClickAnalyze]) \<noteq> [])"
proof -
  have h: "reachable (app_run initial_state [EditUrl ''https://shop'', ClickAnalyze])"
    by (rule reachable_app_run) (simp_all add: reachable.init)
  show ?thesis using reachable_single_request [OF h] .
qed

text \<open>
  C21.  While the app is pristine (neither manual scoring started nor a URL
  analysed successfully) the scores are the initial all-unset ones and there is
  no suggestion.
\<close>

theorem reachable_pristine:
  assumes "reachable s" and "isPristine s"
  shows "scores s = initial_scores \<and> suggestions s = None"
  using reachable_invariants [OF assms(1)] assms(2) by (simp add: pristine_inv_def)

theorem reachable_pristine_witness:
  "scores (app_run initial_state [EditUrl ''x'', ClickAnalyze, Resolve 0]) = initial_scores \<and>
   suggestions (app_run initial_state [EditUrl ''x'', ClickAnalyze, Resolve 0]) = None"
proof -
  have h1: "reachable (app_run initial_state [EditUrl ''x'', ClickAnalyze, Resolve 0])"
    by (rule reachable_app_run) (simp_all add: reachable.init)
  have h2: "isPristine (app_run initial_state [EditUrl ''x'', ClickAnalyze, Resolve 0])"
    by code_simp
  show ?thesis using reachable_pristine [OF h1 h2] .
qed

text \<open>
  C22.  A failed URL analysis (a URL without the \<open>http\<close> prefix) changes only
  the error message and the busy flag: the scores, the suggestions and the
  pristine flag are left as they were.
\<close>

theorem url_failure_keeps_state:
  assumes "\<not> starts_with url ''http''"
  shows "handleUrlAnalysis_done url s = s\<lparr>error := Some ErrUrlFailed, isAnalyzingUrl := False\<rparr>"
proof -
  have "analyzeUrlAndScore url = Inl ErrInvalidUrl"
    using assms by (simp add: analyzeUrlAndScore_def)
  then show ?thesis by (simp add: handleUrlAnalysis_done_def)
qed

theorem url_failure_keeps_state_witness:
  "handleUrlAnalysis_done ''ftp://x'' initial_state =
     initial_state\<lparr>error := Some ErrUrlFailed, isAnalyzingUrl := False\<rparr>"
proof -
  have h: "\<not> starts_with ''ftp://x'' ''http''" by code_simp
  show ?thesis using url_failure_keeps_state [OF h] .
qed

text \<open>
  C23.  Delivering the pending response always unlocks the controls: in a
  reachable state with a call in flight, \<open>Resolve 0\<close> leaves nothing pending and
  the app not busy.
\<close>

theorem resolve_unlocks:
  assumes "reachable s" and "pending s \<noteq> []"
  shows "pending (app_step s (Resolve 0)) = [] \<and> \<not> isBusy (app_step s (Resolve 0))"
proof -
  have "reachable (app_step s (Resolve 0))"
    by (rule reachable.step [OF assms(1)]) simp
  then have inv: "busy_inv (app_step s (Resolve 0))"
    using reachable_invariants by blast
  from reachable_invariants [OF assms(1)] have "busy_inv s" by simp
  with assms(2) have "pending s = [pending s ! 0]"
    using busy_inv_single by blast
  then have "pending (app_step s (Resolve 0)) = []"
    by (cases "pending s ! 0")
       (simp_all add: resolve_def Let_def fetchSuggestions_done_def handleUrlAnalysis_done_def
        split: sum.split)
  with inv show ?thesis by (simp add: busy_inv_def isBusy_def)
qed

theorem resolve_unlocks_witness:
  "pending (app_step (app_run initial_state [EditUrl ''https://shop'', ClickAnalyze]) (Resolve 0)) = [] \<and>
   \<not> isBusy (app_step (app_run initial_state [EditUrl ''https://shop'', ClickAnalyze]) (Resolve 0))"
proof -
  have h1: "reachable (app_run initial_state [EditUrl ''https://shop'', ClickAnalyze])"
    by (rule reachable_app_run) (simp_all add: reachable.init)
  have h2: "pending (app_run initial_state [EditUrl ''https://shop'', ClickAnalyze]) \<noteq> []"
    by code_simp
  show ?thesis using resolve_unlocks [OF h1 h2] .
qed

text \<open>
  C24.  Advice can be requested for stale scores: right after a URL analysis the
  debounced copy still holds the old scores, the advice button is enabled, and
  the request carries the all-unset scores, not the e-commerce scores on screen.
\<close>

theorem stale_advice_request:
  "\<exists>s ss. reachable s \<and> pending s = [AdviceReq ss] \<and> ss \<noteq> scores s \<and>
          ss = initial_scores \<and> scores s = scores_of [9, 7, 6, 4, 3]"
proof -
  let ?es = "[EditUrl ''https://shop'', ClickAnalyze, Resolve 0, ClickGetAdvice]"
  have r: "reachable (app_run initial_state ?es)"
    by (rule reachable_app_run) (simp_all add: reachable.init)
  have "app_run initial_state ?es =
          initial_state\<lparr>scores := scores_of [9, 7, 6, 4, 3],
                        suggestions := None, isLoading := True, isPristine := False,
                        urlInput := ''https://shop'', pending := [AdviceReq initial_scores]\<rparr>"
    by (simp add: initial_state_def handleUrlAnalysis_start_def resolve_def Let_def
        handleUrlAnalysis_done_def shop_lookup mapResultScores_ecommerce isBusy_def hasScores_def
        fetchSuggestions_start_def del: initial_scores_eq)
  with r show ?thesis
    by (intro exI [of _ "app_run initial_state ?es"] exI [of _ initial_scores]) simp
qed

end
