(* ===== verification/Balance.thy ===== *)
theory Balance
  imports Types
begin

text \<open>
  The balance analyzer: the \<open>useMemo\<close> block of \<^verbatim>\<open>src/App.tsx\<close> (lines 82-101)
  that derives the balance index and the risk warnings from the current scores on
  every render.  It is modelled over exact reals; \<open>Math.sqrt\<close> is \<open>sqrt\<close>,
  \<open>Math.round\<close> is \<open>js_round\<close>.  Next to it, \<open>balance_index_exact\<close>
  computes the same index from the variance alone, without a square root (the
  comparison with each candidate integer is squared), so that the index is
  computable by evaluation; the lemmas prove the two equal, bound the index to
  0..100, and characterise the low-score and the imbalance warnings.
\<close>

section \<open>Definitions\<close>

record Balance =
  balanceIndex :: int
  riskWarnings :: "message list"

text \<open>Population variance of the values (divided by the count, not count - 1).\<close>

definition variance :: "int list \<Rightarrow> real" where
  "variance vs =
    (let mean = real_of_int (sum_list vs) / real (length vs)
     in sum_list (map (\<lambda>v. (real_of_int v - mean) ^ 2) vs) / real (length vs))"

definition computeBalance :: "DimensionScore list \<Rightarrow> Balance" where
  "computeBalance scores =
    (let values = filter (\<lambda>v. v > 0) (map val scores)
     in if length values = 0 then \<lparr>balanceIndex = 0, riskWarnings = []\<rparr>
        else
          (let sum = sum_list values;
               mean = real_of_int sum / real (length values);
               stdDev = sqrt (sum_list (map (\<lambda>v. (real_of_int v - mean) ^ 2) values)
                              / real (length values));
               balance = max 0 (js_round ((1 - stdDev / (9 / 2)) * 100));
               warnings = map (\<lambda>s. LowScoreWarning (subject s))
                            (filter (\<lambda>s. val s > 0 \<and> val s < 4) scores)
           in \<lparr>balanceIndex = balance,
               riskWarnings = (if stdDev > 5 / 2 \<and> mean > 0
                               then warnings @ [ImbalanceWarning] else warnings)\<rparr>))"

text \<open>
  The index from the variance: the largest \<open>k\<close> in 100, 99, ..., 0 with
  \<open>k \<le> 201/2 - (200/9) sqrt var\<close>, decided by squaring; 0 if there is none.
\<close>

definition balance_index_exact :: "real \<Rightarrow> int" where
  "balance_index_exact var =
    (case find (\<lambda>k. 40000 / 81 * var \<le> (201 / 2 - real_of_int k) ^ 2) (rev [0..100]) of
       Some k \<Rightarrow> k
     | None \<Rightarrow> 0)"

section \<open>Lemmas\<close>

lemma variance_nonneg: "0 \<le> variance vs"
  unfolding variance_def Let_def by (intro divide_nonneg_nonneg sum_list_nonneg) auto

lemma computeBalance_eq:
  "computeBalance scores =
    (let values = filter (\<lambda>v. v > 0) (map val scores);
         warnings = map (\<lambda>s. LowScoreWarning (subject s)) (filter (\<lambda>s. val s > 0 \<and> val s < 4) scores)
     in if values = [] then \<lparr>balanceIndex = 0, riskWarnings = []\<rparr>
        else \<lparr>balanceIndex = max 0 (js_round ((1 - sqrt (variance values) / (9 / 2)) * 100)),
              riskWarnings = (if sqrt (variance values) > 5 / 2 then warnings @ [ImbalanceWarning]
                              else warnings)\<rparr>)"
proof -
  define vs where "vs = filter (\<lambda>v. v > 0) (map val scores)"
  have "0 < sum_list vs" if "vs \<noteq> []"
  proof -
    have "\<forall>v\<in>set vs. 0 < v" by (simp add: vs_def)
    then show ?thesis
      using that by (induction vs) (auto simp: add_pos_nonneg sum_list_nonneg less_imp_le)
  qed
  then have "0 < real_of_int (sum_list vs) / real (length vs)" if "vs \<noteq> []"
    using that by simp
  then show ?thesis
    unfolding computeBalance_def variance_def Let_def vs_def [symmetric] by auto
qed

text \<open>Descending search for the floor: the first \<open>k\<close> of \<open>n, n-1, ..., 0\<close> below \<open>y\<close>.\<close>

lemma find_le_rev_upto:
  assumes "\<lfloor>y\<rfloor> \<le> int n"
  shows "find (\<lambda>k. real_of_int k \<le> y) (rev [0..int n]) =
           (if \<lfloor>y\<rfloor> < 0 then None else Some \<lfloor>y\<rfloor>)"
  using assms
proof (induction n)
  case 0
  have "0 \<le> y \<longleftrightarrow> 0 \<le> \<lfloor>y\<rfloor>" by (simp add: le_floor_iff)
  with "0" show ?case by (auto simp: floor_eq_iff)
next
  case (Suc n)
  have split: "rev [0..int (Suc n)] = int (Suc n) # rev [0..int n]"
    by (simp add: upto_rec2)
  show ?case
  proof (cases "real_of_int (int (Suc n)) \<le> y")
    case True
    then have "int (Suc n) \<le> \<lfloor>y\<rfloor>" by (simp add: le_floor_iff)
    with Suc.prems have fl: "\<lfloor>y\<rfloor> = int (Suc n)" by linarith
    have "find (\<lambda>k. real_of_int k \<le> y) (rev [0..int (Suc n)]) = Some (int (Suc n))"
      unfolding split using True by simp
    then show ?thesis unfolding fl by simp
  next
    case False
    then have "\<lfloor>y\<rfloor> \<le> int n" by (simp add: floor_le_iff)
    moreover have "find (\<lambda>k. real_of_int k \<le> y) (rev [0..int (Suc n)]) =
                   find (\<lambda>k. real_of_int k \<le> y) (rev [0..int n])"
      unfolding split using False by simp
    ultimately show ?thesis using Suc.IH by simp
  qed
qed

lemma sqrt_cmp_square:
  assumes "0 \<le> v" "0 \<le> d"
  shows "200 / 9 * sqrt v \<le> d \<longleftrightarrow> 40000 / 81 * v \<le> d ^ 2"
proof -
  have "200 / 9 * sqrt v = sqrt (40000 / 81 * v)"
    by (simp add: real_sqrt_mult real_sqrt_divide)
  moreover have "d = sqrt (d ^ 2)" using assms(2) by simp
  ultimately show ?thesis
    by (metis real_sqrt_le_iff)
qed

lemma balance_index_exact_eq:
  assumes "0 \<le> v"
  shows "balance_index_exact v = max 0 (js_round ((1 - sqrt v / (9 / 2)) * 100))"
proof -
  let ?y = "201 / 2 - 200 / 9 * sqrt v"
  have y: "(1 - sqrt v / (9 / 2)) * 100 + 1 / 2 = ?y" by (simp add: field_simps)
  have "0 \<le> sqrt v" using assms by simp
  then have "?y < 101" by linarith
  then have le100: "\<lfloor>?y\<rfloor> \<le> int 100"
    by (simp add: floor_le_iff)
  have cong: "(real_of_int k \<le> ?y) = (40000 / 81 * v \<le> (201 / 2 - real_of_int k) ^ 2)"
    if "k \<in> set (rev [0..int 100])" for k
  proof -
    from that have "k \<le> 100" by simp
    then have d: "0 \<le> 201 / 2 - real_of_int k" by simp
    have "real_of_int k \<le> ?y \<longleftrightarrow> 200 / 9 * sqrt v \<le> 201 / 2 - real_of_int k"
      by linarith
    also have "\<dots> \<longleftrightarrow> 40000 / 81 * v \<le> (201 / 2 - real_of_int k) ^ 2"
      by (rule sqrt_cmp_square [OF assms d])
    finally show ?thesis .
  qed
  have "find (\<lambda>k. 40000 / 81 * v \<le> (201 / 2 - real_of_int k) ^ 2) (rev [0..100]) =
        find (\<lambda>k. real_of_int k \<le> ?y) (rev [0..int 100])"
    using cong by (intro find_cong) simp_all
  also have "\<dots> = (if \<lfloor>?y\<rfloor> < 0 then None else Some \<lfloor>?y\<rfloor>)"
    using le100 by (rule find_le_rev_upto)
  finally show ?thesis
    unfolding balance_index_exact_def js_round_def y by auto
qed

lemma js_round_index_le_100:
  assumes "0 \<le> sd"
  shows "js_round ((1 - sd / (9 / 2)) * 100) \<le> 100"
proof -
  have "(1 - sd / (9 / 2)) * 100 + 1 / 2 < 101" using assms by (simp add: field_simps)
  then show ?thesis by (simp add: js_round_def floor_le_iff)
qed

lemma positive_values_mean:
  assumes "\<forall>v\<in>set vs. v = c" "vs \<noteq> []"
  shows "real_of_int (sum_list vs) / real (length vs) = real_of_int c" and "variance vs = 0"
proof -
  have vs: "vs = replicate (length vs) c"
    using assms(1) by (simp add: replicate_length_same)
  have "real_of_int (sum_list vs) = real (length vs) * real_of_int c"
    by (subst vs) (simp add: sum_list_replicate)
  then show mean: "real_of_int (sum_list vs) / real (length vs) = real_of_int c"
    using assms(2) by simp
  have "map (\<lambda>v. (real_of_int v - real_of_int c) ^ 2) vs = replicate (length vs) 0"
    by (subst vs) simp
  then show "variance vs = 0"
    unfolding variance_def Let_def mean by (simp add: sum_list_replicate)
qed

section \<open>Properties\<close>

text \<open>
  C7.  The balance index computed with \<open>Math.sqrt\<close> and \<open>Math.round\<close> equals the
  square-root-free computation from the variance of the set (non-zero) scores.
\<close>

theorem computeBalance_index_exact:
  "balanceIndex (computeBalance ss) =
    (let vs = filter (\<lambda>v. v > 0) (map val ss)
     in if vs = [] then 0 else balance_index_exact (variance vs))"
  by (simp add: computeBalance_eq Let_def balance_index_exact_eq variance_nonneg)

text \<open>C8.  The balance index always lies in 0..100.\<close>

theorem computeBalance_index_bounds:
  "0 \<le> balanceIndex (computeBalance ss) \<and> balanceIndex (computeBalance ss) \<le> 100"
proof -
  let ?vs = "filter (\<lambda>v. v > 0) (map val ss)"
  have "js_round ((1 - sqrt (variance ?vs) / (9 / 2)) * 100) \<le> 100"
    by (rule js_round_index_le_100) (simp add: variance_nonneg)
  then show ?thesis by (simp add: computeBalance_eq Let_def)
qed

text \<open>C9.  With every dimension unset (value 0) the index is 0 and there is no warning.\<close>

theorem computeBalance_all_unset:
  assumes "list_all (\<lambda>s. val s = 0) ss"
  shows "computeBalance ss = \<lparr>balanceIndex = 0, riskWarnings = []\<rparr>"
proof -
  have "filter (\<lambda>v. v > 0) (map val ss) = []"
    using assms by (simp add: filter_empty_conv list_all_iff)
  then show ?thesis by (simp add: computeBalance_eq)
qed

theorem computeBalance_all_unset_witness:
  "list_all (\<lambda>s. val s = 0) (scores_of [0, 0, 0, 0, 0]) \<and>
   computeBalance (scores_of [0, 0, 0, 0, 0]) = \<lparr>balanceIndex = 0, riskWarnings = []\<rparr>"
proof -
  have h: "list_all (\<lambda>s. val s = 0) (scores_of [0, 0, 0, 0, 0])" by simp
  show ?thesis using computeBalance_all_unset [OF h] h by simp
qed

text \<open>
  C10.  When every set score has the same value (at least one set), the standard
  deviation is 0: the index is 100 and there is no imbalance warning.
\<close>

theorem computeBalance_uniform:
  assumes "\<forall>s\<in>set ss. val s = c \<or> val s = 0" and "0 < c" and "\<exists>s\<in>set ss. val s = c"
  shows "balanceIndex (computeBalance ss) = 100 \<and> ImbalanceWarning \<notin> set (riskWarnings (computeBalance ss))"
proof -
  let ?vs = "filter (\<lambda>v. v > 0) (map val ss)"
  have all: "\<forall>v\<in>set ?vs. v = c" using assms(1) by auto
  have ne: "?vs \<noteq> []" using assms(2,3) by (auto simp: filter_empty_conv)
  have "variance ?vs = 0" using positive_values_mean(2) [OF all ne] .
  then show ?thesis
    using ne by (auto simp: computeBalance_eq Let_def js_round_def)
qed

theorem computeBalance_uniform_witness:
  "balanceIndex (computeBalance (scores_of [7, 7, 0, 7, 7])) = 100 \<and>
   ImbalanceWarning \<notin> set (riskWarnings (computeBalance (scores_of [7, 7, 0, 7, 7])))"
proof -
  have h1: "\<forall>s\<in>set (scores_of [7, 7, 0, 7, 7]). val s = 7 \<or> val s = 0" by simp
  have h2: "(0::int) < 7" by simp
  have h3: "\<exists>s\<in>set (scores_of [7, 7, 0, 7, 7]). val s = 7" by simp
  show ?thesis using computeBalance_uniform [OF h1 h2 h3] .
qed

text \<open>
  C11.  A dimension gets a low-score risk warning exactly when its score is set
  and below 4.
\<close>

theorem computeBalance_low_warning_iff:
  "LowScoreWarning l \<in> set (riskWarnings (computeBalance ss)) \<longleftrightarrow>
     (\<exists>s. s \<in> set ss \<and> subject s = l \<and> 0 < val s \<and> val s < 4)"
  by (auto simp: computeBalance_eq Let_def filter_empty_conv)

text \<open>
  C12.  The imbalance warning is issued exactly when some score is set and the
  standard deviation of the set scores exceeds 2.5 (variance above 6.25).
\<close>

theorem computeBalance_imbalance_iff:
  "ImbalanceWarning \<in> set (riskWarnings (computeBalance ss)) \<longleftrightarrow>
     (let vs = filter (\<lambda>v. v > 0) (map val ss) in vs \<noteq> [] \<and> 25 / 4 < variance vs)"
proof -
  have e: "sqrt (25 / 4) = (5 / 2 :: real)"
    by (rule real_sqrt_unique) (simp_all add: power2_eq_square)
  have "5 / 2 < sqrt x \<longleftrightarrow> 25 / 4 < x" for x :: real
  proof -
    have "5 / 2 < sqrt x \<longleftrightarrow> sqrt (25 / 4) < sqrt x" by (simp only: e)
    then show ?thesis by simp
  qed
  then show ?thesis
    by (auto simp: computeBalance_eq Let_def)
qed

end
